theory Spec2Isabelle
  imports Main
begin

section \<open>Data of the cluster-event source\<close>

text \<open>
  The handler of \<^verbatim>\<open>routehandlers\<close> reads two fields of an actual-LRP record:
  \<^verbatim>\<open>ActualLRP.State\<close> and \<^verbatim>\<open>ActualLRP.ActualLRPNetInfo\<close>. The other fields are
  those the test data of the repository fills in. Pointers are modelled as the values
  they point to: every pointer argument is taken to be non-nil.
\<close>

record ActualLRPNetInfo =
  Address :: string
  Ports :: "(nat \<times> nat) list"

record ActualLRP =
  ProcessGuid :: string
  InstanceGuid :: string
  CellId :: string
  Domain :: string
  Index :: int
  State :: string
  ActualLRPNetInfo :: ActualLRPNetInfo

record ActualLRPRoutingInfo =
  ActualLRP :: ActualLRP
  Evacuating :: bool

text \<open>
  \<^verbatim>\<open>models.Event\<close> is an interface. The six event types that \<^verbatim>\<open>HandleEvent\<close>
  recognises carry desired LRPs (type \<open>'dl\<close>) or actual-LRP groups (type \<open>'g\<close>); every
  other implementation of the interface is \<open>OtherEvent\<close>, with the string its
  \<^verbatim>\<open>EventType()\<close> returns.
\<close>

datatype ('dl, 'g) Event =
    DesiredLRPCreatedEvent 'dl
  | DesiredLRPChangedEvent 'dl 'dl
  | DesiredLRPRemovedEvent 'dl
  | ActualLRPCreatedEvent 'g
  | ActualLRPChangedEvent 'g 'g
  | ActualLRPRemovedEvent 'g
  | OtherEvent string

section \<open>Messages, logging and the outside world\<close>

text \<open>
  \<^verbatim>\<open>routingtable.MessagesToEmit\<close>: the handler reads the two message sequences.
  \<^verbatim>\<open>routingtable.TCPRouteMappings\<close> is opaque to the handler (type \<open>'r\<close>).
\<close>

record 'msg MessagesToEmit =
  RegistrationMessages :: "'msg list"
  UnregistrationMessages :: "'msg list"

text \<open>The \<^verbatim>\<open>lager.Data\<close> values of the handler's log calls, one constructor per shape.\<close>

datatype ('d, 'msg, 'r) Data =
    NoData
  | EventTypeData string
  | MessagesData "'msg MessagesToEmit"
  | RoutingEventsData 'r
  | NumMessagesData nat nat
  | NetInfoData ActualLRPNetInfo
  | DesiredLRPData 'd
  | ActualLRPData ActualLRPRoutingInfo
  | BeforeAfterDesiredData 'd 'd
  | BeforeAfterActualData ActualLRPRoutingInfo ActualLRPRoutingInfo

record ('d, 'msg, 'r) Logger =
  sessionName :: "string list"
  sessionData :: "('d, 'msg, 'r) Data list"

definition Session ::
  "string \<Rightarrow> ('d, 'msg, 'r) Data list \<Rightarrow> ('d, 'msg, 'r) Logger \<Rightarrow> ('d, 'msg, 'r) Logger" where
  "Session task ds lg =
     lg\<lparr>sessionName := sessionName lg @ [task], sessionData := sessionData lg @ ds\<rparr>"

datatype Level = DEBUG | INFO | ERROR

text \<open>
  Everything the handler does to the outside, in the order it happens: log lines, calls
  of the two emitters, and calls of the process-wide metrics.
\<close>

datatype ('d, 'msg, 'r) Effect =
    LogLine Level "('d, 'msg, 'r) Logger" string "string option" "('d, 'msg, 'r) Data"
  | NATSEmitCall "'msg MessagesToEmit"
  | RoutingAPIEmitCall 'r
  | CounterAdd string nat
  | MetricSend string int

type_synonym ('d, 'msg, 'r) World = "('d, 'msg, 'r) Effect list"

definition log ::
  "Level \<Rightarrow> ('d, 'msg, 'r) Logger \<Rightarrow> string \<Rightarrow> string option \<Rightarrow> ('d, 'msg, 'r) Data \<Rightarrow>
   ('d, 'msg, 'r) World \<Rightarrow> ('d, 'msg, 'r) World" where
  "log lv lg action err d w = w @ [LogLine lv lg action err d]"

text \<open>
  An emitter is an interface value with one method, \<^verbatim>\<open>Emit\<close>, which returns an error
  or nil. It is modelled as that method: a function of what has happened so far and of
  the argument, so an emitter may fail at one call and succeed at the next.
\<close>

type_synonym ('d, 'msg, 'r) NATSEmitter =
  "('d, 'msg, 'r) World \<Rightarrow> 'msg MessagesToEmit \<Rightarrow> string option"

type_synonym ('d, 'msg, 'r) RoutingAPIEmitter =
  "('d, 'msg, 'r) World \<Rightarrow> 'r \<Rightarrow> string option"

section \<open>What the handler depends on\<close>

text \<open>
  The routing table (package \<^verbatim>\<open>routingtable\<close>), the conversions of the event payloads,
  the constant \<^verbatim>\<open>models.ActualLRPStateRunning\<close>, the route counts of a delta, the zero
  value of \<^verbatim>\<open>TCPRouteMappings\<close> and the metrics sink are parameters of the handler.
  A table is a value of type \<open>'t\<close>; a mutator takes the table and returns the route
  mappings, the messages and the table after the call. \<^verbatim>\<open>Swap\<close> takes the receiver
  first, then the new table and the domains. The queries (\<^verbatim>\<open>Emit\<close>,
  \<^verbatim>\<open>HasExternalRoutes\<close> and the two counts) return a value only: section 4.1 of the
  specification gives them as pure.
\<close>

record ('t, 'dl, 'd, 'g, 'msg, 'r) Deps =
  NewRoutingTable :: "('d, 'msg, 'r) Logger \<Rightarrow> bool \<Rightarrow> 't"
  SetRoutes :: "'d option \<Rightarrow> 'd \<Rightarrow> 't \<Rightarrow> 'r \<times> 'msg MessagesToEmit \<times> 't"
  RemoveRoutes :: "'d \<Rightarrow> 't \<Rightarrow> 'r \<times> 'msg MessagesToEmit \<times> 't"
  AddEndpoint :: "ActualLRPRoutingInfo \<Rightarrow> 't \<Rightarrow> 'r \<times> 'msg MessagesToEmit \<times> 't"
  RemoveEndpoint :: "ActualLRPRoutingInfo \<Rightarrow> 't \<Rightarrow> 'r \<times> 'msg MessagesToEmit \<times> 't"
  Swap :: "'t \<Rightarrow> 't \<Rightarrow> string set \<Rightarrow> 'r \<times> 'msg MessagesToEmit \<times> 't"
  Emit :: "'t \<Rightarrow> 'r \<times> 'msg MessagesToEmit"
  HasExternalRoutes :: "ActualLRPRoutingInfo \<Rightarrow> 't \<Rightarrow> bool"
  HTTPEndpointCount :: "'t \<Rightarrow> int"
  TCPRouteCount :: "'t \<Rightarrow> int"
  DesiredLRPSchedulingInfo :: "'dl \<Rightarrow> 'd"
  NewActualLRPRoutingInfo :: "'g \<Rightarrow> ActualLRPRoutingInfo"
  ActualLRPStateRunning :: string
  RouteRegistrationCount :: "'msg MessagesToEmit \<Rightarrow> nat"
  RouteUnregistrationCount :: "'msg MessagesToEmit \<Rightarrow> nat"
  zeroTCPRouteMappings :: 'r
  metricSend :: "('d, 'msg, 'r) World \<Rightarrow> string \<Rightarrow> int \<Rightarrow> string option"

section \<open>The handler\<close>

record ('t, 'd, 'msg, 'r) NATSHandler =
  routingTable :: 't
  natsEmitter :: "('d, 'msg, 'r) NATSEmitter option"
  routingAPIEmitter :: "('d, 'msg, 'r) RoutingAPIEmitter option"
  localMode :: bool

definition NewNATSHandler ::
  "'t \<Rightarrow> ('d, 'msg, 'r) NATSEmitter option \<Rightarrow> ('d, 'msg, 'r) RoutingAPIEmitter option \<Rightarrow> bool \<Rightarrow>
   ('t, 'd, 'msg, 'r) NATSHandler" where
  "NewNATSHandler t ne re lm =
     \<lparr>routingTable = t, natsEmitter = ne, routingAPIEmitter = re, localMode = lm\<rparr>"

text \<open>
  \<^verbatim>\<open>emitMessages\<close> assigns to no field of the handler, so it returns the world only.
\<close>

definition emitMessages ::
  "('t, 'dl, 'd, 'g, 'msg, 'r) Deps \<Rightarrow> ('d, 'msg, 'r) Logger \<Rightarrow> 'msg MessagesToEmit \<Rightarrow> 'r \<Rightarrow>
   ('t, 'd, 'msg, 'r) NATSHandler \<Rightarrow> ('d, 'msg, 'r) World \<Rightarrow> ('d, 'msg, 'r) World" where
  "emitMessages env logger messagesToEmit routeMappings handler w =
     (let w1 =
        (case natsEmitter handler of
           Some ne \<Rightarrow>
             (let wa = log DEBUG logger ''emit-messages'' None (MessagesData messagesToEmit) w;
                  err = ne wa messagesToEmit;
                  wb = wa @ [NATSEmitCall messagesToEmit];
                  wc = (case err of
                          Some e \<Rightarrow> log ERROR logger ''failed-to-emit-http-routes'' (Some e) NoData wb
                        | None \<Rightarrow> wb);
                  wd = wc @ [CounterAdd ''RoutesRegistered'' (RouteRegistrationCount env messagesToEmit)]
              in wd @ [CounterAdd ''RoutesUnregistered'' (RouteUnregistrationCount env messagesToEmit)])
         | None \<Rightarrow>
             log INFO logger ''no-emitter-configured-skipping-emit-messages'' None
               (MessagesData messagesToEmit) w)
      in case routingAPIEmitter handler of
           Some re \<Rightarrow>
             (let err = re w1 routeMappings;
                  w2 = w1 @ [RoutingAPIEmitCall routeMappings]
              in case err of
                   Some e \<Rightarrow> log ERROR logger ''failed-to-emit-http-routes'' (Some e) NoData w2
                 | None \<Rightarrow> w2)
         | None \<Rightarrow> w1)"

definition handleDesiredCreate ::
  "('t, 'dl, 'd, 'g, 'msg, 'r) Deps \<Rightarrow> ('d, 'msg, 'r) Logger \<Rightarrow> 'd \<Rightarrow>
   ('t, 'd, 'msg, 'r) NATSHandler \<Rightarrow> ('d, 'msg, 'r) World \<Rightarrow>
   ('t, 'd, 'msg, 'r) NATSHandler \<times> ('d, 'msg, 'r) World" where
  "handleDesiredCreate env logger0 desiredLRP handler w =
     (let logger = Session ''handle-desired-create'' [DesiredLRPData desiredLRP] logger0;
          w1 = log INFO logger ''starting'' None NoData w;
          (routeMappings, messagesToEmit, t) = SetRoutes env None desiredLRP (routingTable handler);
          handler1 = handler\<lparr>routingTable := t\<rparr>;
          w2 = emitMessages env logger messagesToEmit routeMappings handler1 w1
      in (handler1, log INFO logger ''complete'' None NoData w2))"

definition handleDesiredUpdate ::
  "('t, 'dl, 'd, 'g, 'msg, 'r) Deps \<Rightarrow> ('d, 'msg, 'r) Logger \<Rightarrow> 'd \<Rightarrow> 'd \<Rightarrow>
   ('t, 'd, 'msg, 'r) NATSHandler \<Rightarrow> ('d, 'msg, 'r) World \<Rightarrow>
   ('t, 'd, 'msg, 'r) NATSHandler \<times> ('d, 'msg, 'r) World" where
  "handleDesiredUpdate env logger0 before after handler w =
     (let logger = Session ''handling-desired-update'' [BeforeAfterDesiredData before after] logger0;
          w1 = log INFO logger ''starting'' None NoData w;
          (routeMappings, messagesToEmit, t) =
             SetRoutes env (Some before) after (routingTable handler);
          handler1 = handler\<lparr>routingTable := t\<rparr>;
          w2 = emitMessages env logger messagesToEmit routeMappings handler1 w1
      in (handler1, log INFO logger ''complete'' None NoData w2))"

definition handleDesiredDelete ::
  "('t, 'dl, 'd, 'g, 'msg, 'r) Deps \<Rightarrow> ('d, 'msg, 'r) Logger \<Rightarrow> 'd \<Rightarrow>
   ('t, 'd, 'msg, 'r) NATSHandler \<Rightarrow> ('d, 'msg, 'r) World \<Rightarrow>
   ('t, 'd, 'msg, 'r) NATSHandler \<times> ('d, 'msg, 'r) World" where
  "handleDesiredDelete env logger0 schedulingInfo handler w =
     (let logger = Session ''handling-desired-delete'' [DesiredLRPData schedulingInfo] logger0;
          w1 = log INFO logger ''starting'' None NoData w;
          (routeMappings, messagesToEmit, t) = RemoveRoutes env schedulingInfo (routingTable handler);
          handler1 = handler\<lparr>routingTable := t\<rparr>;
          w2 = emitMessages env logger messagesToEmit routeMappings handler1 w1
      in (handler1, log INFO logger ''complete'' None NoData w2))"

definition handleActualCreate ::
  "('t, 'dl, 'd, 'g, 'msg, 'r) Deps \<Rightarrow> ('d, 'msg, 'r) Logger \<Rightarrow> ActualLRPRoutingInfo \<Rightarrow>
   ('t, 'd, 'msg, 'r) NATSHandler \<Rightarrow> ('d, 'msg, 'r) World \<Rightarrow>
   ('t, 'd, 'msg, 'r) NATSHandler \<times> ('d, 'msg, 'r) World" where
  "handleActualCreate env logger0 actualLRPInfo handler w =
     (let logger = Session ''handling-actual-create'' [ActualLRPData actualLRPInfo] logger0;
          w1 = log INFO logger ''starting'' None NoData w
      in if State (ActualLRP actualLRPInfo) = ActualLRPStateRunning env then
           (let w2 = log INFO logger ''handler-adding-endpoint'' None
                       (NetInfoData (ActualLRPNetInfo (ActualLRP actualLRPInfo))) w1;
                (routeMappings, messagesToEmit, t) =
                   AddEndpoint env actualLRPInfo (routingTable handler);
                handler1 = handler\<lparr>routingTable := t\<rparr>;
                w3 = emitMessages env logger messagesToEmit routeMappings handler1 w2
            in (handler1, log INFO logger ''complete'' None NoData w3))
         else (handler, log INFO logger ''complete'' None NoData w1))"

text \<open>
  When neither case of the \<^verbatim>\<open>switch\<close> applies, \<^verbatim>\<open>handleActualUpdate\<close> still calls
  \<^verbatim>\<open>emitMessages\<close>, with the zero values of its two variables.
\<close>

definition handleActualUpdate ::
  "('t, 'dl, 'd, 'g, 'msg, 'r) Deps \<Rightarrow> ('d, 'msg, 'r) Logger \<Rightarrow> ActualLRPRoutingInfo \<Rightarrow>
   ActualLRPRoutingInfo \<Rightarrow> ('t, 'd, 'msg, 'r) NATSHandler \<Rightarrow> ('d, 'msg, 'r) World \<Rightarrow>
   ('t, 'd, 'msg, 'r) NATSHandler \<times> ('d, 'msg, 'r) World" where
  "handleActualUpdate env logger0 before after handler w =
     (let logger = Session ''handling-actual-update'' [BeforeAfterActualData before after] logger0;
          w1 = log INFO logger ''starting'' None NoData w;
          (routeMappings, messagesToEmit, handler1, w2) =
            (if State (ActualLRP after) = ActualLRPStateRunning env then
               (let wa = log INFO logger ''handler-adding-endpoint'' None
                           (NetInfoData (ActualLRPNetInfo (ActualLRP after))) w1;
                    (rm, ms, t) = AddEndpoint env after (routingTable handler)
                in (rm, ms, handler\<lparr>routingTable := t\<rparr>, wa))
             else if State (ActualLRP after) \<noteq> ActualLRPStateRunning env
                     \<and> State (ActualLRP before) = ActualLRPStateRunning env then
               (let wa = log INFO logger ''handler-removing-endpoint'' None
                           (NetInfoData (ActualLRPNetInfo (ActualLRP before))) w1;
                    (rm, ms, t) = RemoveEndpoint env before (routingTable handler)
                in (rm, ms, handler\<lparr>routingTable := t\<rparr>, wa))
             else
               (zeroTCPRouteMappings env,
                \<lparr>RegistrationMessages = [], UnregistrationMessages = []\<rparr>, handler, w1));
          w3 = emitMessages env logger messagesToEmit routeMappings handler1 w2
      in (handler1, log INFO logger ''complete'' None NoData w3))"

definition handleActualDelete ::
  "('t, 'dl, 'd, 'g, 'msg, 'r) Deps \<Rightarrow> ('d, 'msg, 'r) Logger \<Rightarrow> ActualLRPRoutingInfo \<Rightarrow>
   ('t, 'd, 'msg, 'r) NATSHandler \<Rightarrow> ('d, 'msg, 'r) World \<Rightarrow>
   ('t, 'd, 'msg, 'r) NATSHandler \<times> ('d, 'msg, 'r) World" where
  "handleActualDelete env logger0 actualLRPInfo handler w =
     (let logger = Session ''handling-actual-delete'' [ActualLRPData actualLRPInfo] logger0;
          w1 = log INFO logger ''starting'' None NoData w
      in if State (ActualLRP actualLRPInfo) = ActualLRPStateRunning env then
           (let w2 = log INFO logger ''handler-removing-endpoint'' None
                       (NetInfoData (ActualLRPNetInfo (ActualLRP actualLRPInfo))) w1;
                (routeMappings, messagesToEmit, t) =
                   RemoveEndpoint env actualLRPInfo (routingTable handler);
                handler1 = handler\<lparr>routingTable := t\<rparr>;
                w3 = emitMessages env logger messagesToEmit routeMappings handler1 w2
            in (handler1, log INFO logger ''complete'' None NoData w3))
         else (handler, log INFO logger ''complete'' None NoData w1))"

fun HandleEvent ::
  "('t, 'dl, 'd, 'g, 'msg, 'r) Deps \<Rightarrow> ('d, 'msg, 'r) Logger \<Rightarrow> ('dl, 'g) Event \<Rightarrow>
   ('t, 'd, 'msg, 'r) NATSHandler \<Rightarrow> ('d, 'msg, 'r) World \<Rightarrow>
   ('t, 'd, 'msg, 'r) NATSHandler \<times> ('d, 'msg, 'r) World" where
  "HandleEvent env logger (DesiredLRPCreatedEvent desiredLrp) handler w =
     handleDesiredCreate env logger (DesiredLRPSchedulingInfo env desiredLrp) handler w"
| "HandleEvent env logger (DesiredLRPChangedEvent before after) handler w =
     handleDesiredUpdate env logger (DesiredLRPSchedulingInfo env before)
       (DesiredLRPSchedulingInfo env after) handler w"
| "HandleEvent env logger (DesiredLRPRemovedEvent desiredLrp) handler w =
     handleDesiredDelete env logger (DesiredLRPSchedulingInfo env desiredLrp) handler w"
| "HandleEvent env logger (ActualLRPCreatedEvent actualLrpGroup) handler w =
     handleActualCreate env logger (NewActualLRPRoutingInfo env actualLrpGroup) handler w"
| "HandleEvent env logger (ActualLRPChangedEvent before after) handler w =
     handleActualUpdate env logger (NewActualLRPRoutingInfo env before)
       (NewActualLRPRoutingInfo env after) handler w"
| "HandleEvent env logger (ActualLRPRemovedEvent actualLrpGroup) handler w =
     handleActualDelete env logger (NewActualLRPRoutingInfo env actualLrpGroup) handler w"
| "HandleEvent env logger (OtherEvent eventType) handler w =
     (handler, log ERROR logger ''did-not-handle-unrecognizable-event''
                 (Some ''unrecognizable-event'') (EventTypeData eventType) w)"

text \<open>
  \<^verbatim>\<open>NATSHandler.Emit\<close>: the full dump of the table goes to both emitters. The method
  assigns to no field of the handler.
\<close>

definition NATSHandler_Emit ::
  "('t, 'dl, 'd, 'g, 'msg, 'r) Deps \<Rightarrow> ('d, 'msg, 'r) Logger \<Rightarrow>
   ('t, 'd, 'msg, 'r) NATSHandler \<Rightarrow> ('d, 'msg, 'r) World \<Rightarrow> ('d, 'msg, 'r) World" where
  "NATSHandler_Emit env logger handler w =
     (let (routingEvents, messagesToEmit) = Emit env (routingTable handler);
          w1 = log INFO logger ''emitting-nats-messages'' None (MessagesData messagesToEmit) w;
          w2 = (case natsEmitter handler of
                  Some ne \<Rightarrow>
                    (let err = ne w1 messagesToEmit;
                         wa = w1 @ [NATSEmitCall messagesToEmit]
                     in case err of
                          Some e \<Rightarrow> log ERROR logger ''failed-to-emit-nats-routes'' (Some e) NoData wa
                        | None \<Rightarrow> wa)
                | None \<Rightarrow> w1);
          w3 = log INFO logger ''emitting-routing-api-messages'' None
                 (RoutingEventsData routingEvents) w2;
          w4 = (case routingAPIEmitter handler of
                  Some re \<Rightarrow>
                    (let err = re w3 routingEvents;
                         wa = w3 @ [RoutingAPIEmitCall routingEvents]
                     in case err of
                          Some e \<Rightarrow> log ERROR logger ''failed-to-emit-tcp-routes'' (Some e) NoData wa
                        | None \<Rightarrow> wa)
                | None \<Rightarrow> w3);
          w5 = w4 @ [CounterAdd ''RoutesSynced'' (RouteRegistrationCount env messagesToEmit)];
          n = HTTPEndpointCount env (routingTable handler);
          err = metricSend env w5 ''RoutesTotal'' n;
          w6 = w5 @ [MetricSend ''RoutesTotal'' n]
      in case err of
           Some e \<Rightarrow> log ERROR logger ''failed-to-send-http-route-count-metric'' (Some e) NoData w6
         | None \<Rightarrow> w6)"

text \<open>The two loops of \<^verbatim>\<open>Sync\<close> that fill the new table.\<close>

fun Sync_desired_loop ::
  "('t, 'dl, 'd, 'g, 'msg, 'r) Deps \<Rightarrow> 'd list \<Rightarrow> 't \<Rightarrow> 't" where
  "Sync_desired_loop env [] newTable = newTable"
| "Sync_desired_loop env (lrp # rest) newTable =
     (case SetRoutes env None lrp newTable of
        (routeMappings, messages, t) \<Rightarrow> Sync_desired_loop env rest t)"

fun Sync_actuals_loop ::
  "('t, 'dl, 'd, 'g, 'msg, 'r) Deps \<Rightarrow> ActualLRPRoutingInfo list \<Rightarrow> 't \<Rightarrow> 't" where
  "Sync_actuals_loop env [] newTable = newTable"
| "Sync_actuals_loop env (lrp # rest) newTable =
     (case AddEndpoint env lrp newTable of
        (routeMappings, messages, t) \<Rightarrow> Sync_actuals_loop env rest t)"

definition Sync_newTable ::
  "('t, 'dl, 'd, 'g, 'msg, 'r) Deps \<Rightarrow> ('d, 'msg, 'r) Logger \<Rightarrow> 'd list \<Rightarrow>
   ActualLRPRoutingInfo list \<Rightarrow> 't" where
  "Sync_newTable env logger desired actuals =
     Sync_actuals_loop env actuals
       (Sync_desired_loop env desired (NewRoutingTable env logger False))"

text \<open>
  \<^verbatim>\<open>cachedEvents\<close> is a Go map from string to event, and the replay is a \<^verbatim>\<open>range\<close>
  over it: every entry is visited once, in an order that Go leaves unspecified. The
  model takes the map as the list of its entries in the order in which the \<^verbatim>\<open>range\<close>
  visits them; \<open>range_of\<close> says that a list is such an enumeration of a map.
\<close>

definition range_of :: "('k \<rightharpoonup> 'v) \<Rightarrow> ('k \<times> 'v) list \<Rightarrow> bool" where
  "range_of m entries = (distinct (map fst entries) \<and> map_of entries = m)"

fun Sync_replay_loop ::
  "('t, 'dl, 'd, 'g, 'msg, 'r) Deps \<Rightarrow> ('d, 'msg, 'r) Logger \<Rightarrow> (string \<times> ('dl, 'g) Event) list \<Rightarrow>
   ('t, 'd, 'msg, 'r) NATSHandler \<Rightarrow> ('d, 'msg, 'r) World \<Rightarrow>
   ('t, 'd, 'msg, 'r) NATSHandler \<times> ('d, 'msg, 'r) World" where
  "Sync_replay_loop env logger [] handler w = (handler, w)"
| "Sync_replay_loop env logger (entry # rest) handler w =
     (case HandleEvent env logger (snd entry) handler w of
        (handler1, w1) \<Rightarrow> Sync_replay_loop env logger rest handler1 w1)"

text \<open>The last block of \<^verbatim>\<open>Sync\<close>: in local mode the two route counts are sent.\<close>

definition Sync_sendRouteCounts ::
  "('t, 'dl, 'd, 'g, 'msg, 'r) Deps \<Rightarrow> ('d, 'msg, 'r) Logger \<Rightarrow>
   ('t, 'd, 'msg, 'r) NATSHandler \<Rightarrow> ('d, 'msg, 'r) World \<Rightarrow> ('d, 'msg, 'r) World" where
  "Sync_sendRouteCounts env logger handler w =
     (if localMode handler then
        (let n = HTTPEndpointCount env (routingTable handler);
             err = metricSend env w ''HTTPRouteCount'' n;
             wa = w @ [MetricSend ''HTTPRouteCount'' n];
             wb = (case err of
                     Some e \<Rightarrow> log ERROR logger ''failed-to-send-routes-total-metric''
                                 (Some e) NoData wa
                   | None \<Rightarrow> wa);
             k = TCPRouteCount env (routingTable handler);
             err1 = metricSend env wb ''TCPRouteCount'' k;
             wc = wb @ [MetricSend ''TCPRouteCount'' k]
         in case err1 of
              Some e \<Rightarrow> log ERROR logger ''failed-to-send-tcp-route-count-metric''
                          (Some e) NoData wc
            | None \<Rightarrow> wc)
      else w)"

text \<open>
  In the source the local \<^verbatim>\<open>newTable\<close> and the field \<^verbatim>\<open>handler.routingTable\<close> are the
  same object during the replay, and no handler method assigns to the field, so after the
  replay \<^verbatim>\<open>newTable\<close> is the table the replay has left in the handler.
\<close>

definition Sync ::
  "('t, 'dl, 'd, 'g, 'msg, 'r) Deps \<Rightarrow> ('d, 'msg, 'r) Logger \<Rightarrow> 'd list \<Rightarrow>
   ActualLRPRoutingInfo list \<Rightarrow> string set \<Rightarrow> (string \<times> ('dl, 'g) Event) list \<Rightarrow>
   ('t, 'd, 'msg, 'r) NATSHandler \<Rightarrow> ('d, 'msg, 'r) World \<Rightarrow>
   ('t, 'd, 'msg, 'r) NATSHandler \<times> ('d, 'msg, 'r) World" where
  "Sync env logger0 desired actuals domains cachedEvents handler w =
     (let logger = Session ''nats-sync'' [] logger0;
          w1 = log DEBUG logger ''starting'' None NoData w;
          newTable = Sync_newTable env logger desired actuals;
          natsEmitter1 = natsEmitter handler;
          routingAPIEmitter1 = routingAPIEmitter handler;
          table = routingTable handler;
          handler1 = handler\<lparr>natsEmitter := None, routingAPIEmitter := None,
                              routingTable := newTable\<rparr>;
          (handler2, w2) = Sync_replay_loop env logger cachedEvents handler1 w1;
          newTable1 = routingTable handler2;
          handler3 = handler2\<lparr>routingTable := table, natsEmitter := natsEmitter1,
                               routingAPIEmitter := routingAPIEmitter1\<rparr>;
          (routeMappings, messages, t) = Swap env (routingTable handler3) newTable1 domains;
          handler4 = handler3\<lparr>routingTable := t\<rparr>;
          numbers = NumMessagesData (length (RegistrationMessages messages))
                      (length (UnregistrationMessages messages));
          w3 = log DEBUG logger ''start-emitting-messages'' None numbers w2;
          w4 = emitMessages env logger messages routeMappings handler4 w3;
          w5 = log DEBUG logger ''done-emitting-messages'' None numbers w4;
          w6 = Sync_sendRouteCounts env logger handler4 w5
      in (handler4, log DEBUG logger ''completed'' None NoData w6))"

fun RefreshDesired ::
  "('t, 'dl, 'd, 'g, 'msg, 'r) Deps \<Rightarrow> ('d, 'msg, 'r) Logger \<Rightarrow> 'd list \<Rightarrow>
   ('t, 'd, 'msg, 'r) NATSHandler \<Rightarrow> ('d, 'msg, 'r) World \<Rightarrow>
   ('t, 'd, 'msg, 'r) NATSHandler \<times> ('d, 'msg, 'r) World" where
  "RefreshDesired env logger [] handler w = (handler, w)"
| "RefreshDesired env logger (desiredLRP # rest) handler w =
     (case SetRoutes env None desiredLRP (routingTable handler) of
        (routeMappings, messagesToEmit, t) \<Rightarrow>
          (let handler1 = handler\<lparr>routingTable := t\<rparr>
           in RefreshDesired env logger rest handler1
                (emitMessages env logger messagesToEmit routeMappings handler1 w)))"

text \<open>
  \<^verbatim>\<open>ShouldRefreshDesired\<close> has a pointer receiver; it returns its result and the
  handler as the call leaves it.
\<close>

definition ShouldRefreshDesired ::
  "('t, 'dl, 'd, 'g, 'msg, 'r) Deps \<Rightarrow> ActualLRPRoutingInfo \<Rightarrow> ('t, 'd, 'msg, 'r) NATSHandler \<Rightarrow>
   bool \<times> ('t, 'd, 'msg, 'r) NATSHandler" where
  "ShouldRefreshDesired env actual handler =
     (\<not> HasExternalRoutes env actual (routingTable handler), handler)"

section \<open>Reading the world\<close>

fun natsCalls :: "('d, 'msg, 'r) World \<Rightarrow> 'msg MessagesToEmit list" where
  "natsCalls [] = []"
| "natsCalls (NATSEmitCall m # w) = m # natsCalls w"
| "natsCalls (e # w) = natsCalls w"

fun routingAPICalls :: "('d, 'msg, 'r) World \<Rightarrow> 'r list" where
  "routingAPICalls [] = []"
| "routingAPICalls (RoutingAPIEmitCall r # w) = r # routingAPICalls w"
| "routingAPICalls (e # w) = routingAPICalls w"

section \<open>A recording table, for concrete runs\<close>

text \<open>
  An instance of the handler's dependencies in the manner of the fakes the repository's
  tests use: the table is the list of the mutator calls it has received, a mutator
  returns its own call as the delta, and \<^verbatim>\<open>Swap\<close> takes over the calls of the new
  table. Desired LRPs are their process guids; an actual-LRP group is its routing info.
\<close>

datatype FakeCall =
    SetRoutesCall "string option" string
  | RemoveRoutesCall string
  | AddEndpointCall ActualLRPRoutingInfo
  | RemoveEndpointCall ActualLRPRoutingInfo

definition fakeDelta ::
  "FakeCall \<Rightarrow> FakeCall list \<Rightarrow> FakeCall list \<times> FakeCall MessagesToEmit \<times> FakeCall list" where
  "fakeDelta c t = ([c], \<lparr>RegistrationMessages = [c], UnregistrationMessages = []\<rparr>, t @ [c])"

definition fakeDeps ::
  "(FakeCall list, string, string, ActualLRPRoutingInfo, FakeCall, FakeCall list) Deps" where
  "fakeDeps =
     \<lparr>NewRoutingTable = (\<lambda>logger b. []),
      SetRoutes = (\<lambda>before after. fakeDelta (SetRoutesCall before after)),
      RemoveRoutes = (\<lambda>d. fakeDelta (RemoveRoutesCall d)),
      AddEndpoint = (\<lambda>a. fakeDelta (AddEndpointCall a)),
      RemoveEndpoint = (\<lambda>a. fakeDelta (RemoveEndpointCall a)),
      Swap = (\<lambda>t newTable domains.
                (newTable, \<lparr>RegistrationMessages = newTable, UnregistrationMessages = t\<rparr>, newTable)),
      Emit = (\<lambda>t. (t, \<lparr>RegistrationMessages = t, UnregistrationMessages = []\<rparr>)),
      HasExternalRoutes = (\<lambda>a t. t \<noteq> []),
      HTTPEndpointCount = (\<lambda>t. int (length t)),
      TCPRouteCount = (\<lambda>t. 0),
      DesiredLRPSchedulingInfo = (\<lambda>d. d),
      NewActualLRPRoutingInfo = (\<lambda>g. g),
      ActualLRPStateRunning = ''RUNNING'',
      RouteRegistrationCount = (\<lambda>m. length (RegistrationMessages m)),
      RouteUnregistrationCount = (\<lambda>m. length (UnregistrationMessages m)),
      zeroTCPRouteMappings = [],
      metricSend = (\<lambda>w name v. None)\<rparr>"

definition fakeActual :: "string \<Rightarrow> string \<Rightarrow> ActualLRPRoutingInfo" where
  "fakeActual guid st =
     \<lparr>ActualLRP =
        \<lparr>ProcessGuid = guid, InstanceGuid = ''instance-guid-1'', CellId = ''cell-id'',
         Domain = ''domain'', Index = 1, State = st,
         ActualLRPNetInfo = \<lparr>Address = ''1.2.3.4'', Ports = [(1234, 8080)]\<rparr>\<rparr>,
      Evacuating = False\<rparr>"

definition fakeLogger :: "(string, FakeCall, FakeCall list) Logger" where
  "fakeLogger = \<lparr>sessionName = [''test''], sessionData = []\<rparr>"

definition failingNATSEmitter :: "(string, FakeCall, FakeCall list) NATSEmitter" where
  "failingNATSEmitter w m = Some ''nats-down''"

definition failingRoutingAPIEmitter :: "(string, FakeCall, FakeCall list) RoutingAPIEmitter" where
  "failingRoutingAPIEmitter w r = Some ''routing-api-down''"

definition fakeHandler ::
  "(string, FakeCall, FakeCall list) NATSEmitter option \<Rightarrow>
   (string, FakeCall, FakeCall list) RoutingAPIEmitter option \<Rightarrow>
   (FakeCall list, string, FakeCall, FakeCall list) NATSHandler" where
  "fakeHandler ne re = NewNATSHandler [SetRoutesCall None ''old''] ne re False"

text \<open>
  Two cached events under their keys: the creation of a desired LRP, which arrived first,
  and its removal, which arrived second. \<open>fakeArrival\<close> lists the entries in the order of
  arrival, \<open>fakeRange\<close> the same entries with the second key first.
\<close>

definition fakeArrival :: "(string \<times> (string, ActualLRPRoutingInfo) Event) list" where
  "fakeArrival =
     [(''event-1'', DesiredLRPCreatedEvent ''p''), (''event-2'', DesiredLRPRemovedEvent ''p'')]"

definition fakeRange :: "(string \<times> (string, ActualLRPRoutingInfo) Event) list" where
  "fakeRange =
     [(''event-2'', DesiredLRPRemovedEvent ''p''), (''event-1'', DesiredLRPCreatedEvent ''p'')]"

section \<open>The refinement view of the first phase of Sync\<close>

text \<open>
  The specification's words for the first phase of \<^verbatim>\<open>Sync\<close>: from an empty table, fold
  \<^verbatim>\<open>SetRoutes(nil, d)\<close> over the desired entries in order, then \<^verbatim>\<open>AddEndpoint(a)\<close> over
  the actual entries in order.
\<close>

definition spec_build_table ::
  "('t, 'dl, 'd, 'g, 'msg, 'r) Deps \<Rightarrow> ('d, 'msg, 'r) Logger \<Rightarrow> 'd list \<Rightarrow>
   ActualLRPRoutingInfo list \<Rightarrow> 't" where
  "spec_build_table env logger desired actuals =
     foldl (\<lambda>t a. snd (snd (AddEndpoint env a t)))
       (foldl (\<lambda>t d. snd (snd (SetRoutes env None d t))) (NewRoutingTable env logger False) desired)
       actuals"

section \<open>The Syncer\<close>







section \<open>The configuration of the route emitter\<close>

record RoutingAPIConfig =
  URI :: string
  RoutingAPI_Port :: int
  AuthDisabled :: bool

record OAuthConfig =
  TokenEndpoint :: string
  OAuth_Port :: int
  SkipSSLValidation :: bool
  ClientName :: string
  ClientSecret :: string
  CACerts :: string

text \<open>
  A \<^verbatim>\<open>durationjson.Duration\<close> is a \<^verbatim>\<open>time.Duration\<close>, a number of nanoseconds. The two
  embedded structs \<^verbatim>\<open>lagerflags.LagerConfig\<close> and \<^verbatim>\<open>debugserver.DebugServerConfig\<close> are
  of other packages (types \<open>'lc\<close> and \<open>'ds\<close>).
\<close>

record ('lc, 'ds) RouteEmitterConfig =
  BBSAddress :: string
  BBSCACertFile :: string
  BBSClientCertFile :: string
  BBSClientKeyFile :: string
  BBSClientSessionCacheSize :: int
  BBSMaxIdleConnsPerHost :: int
  CellID :: string
  CommunicationTimeout :: int
  ConsulCluster :: string
  ConsulDownModeNotificationInterval :: int
  ConsulSessionName :: string
  DropsondePort :: int
  HealthCheckAddress :: string
  LockRetryInterval :: int
  LockTTL :: int
  NATSAddresses :: string
  NATSUsername :: string
  NATSPassword :: string
  RouteEmittingWorkers :: int
  SyncInterval :: int
  OAuth :: OAuthConfig
  RoutingAPI :: RoutingAPIConfig
  LagerConfig :: 'lc
  DebugServerConfig :: 'ds

text \<open>
  What the configuration code takes from elsewhere: two constants of \<^verbatim>\<open>locket\<close>, the
  default and the zero value of the logging configuration, the zero value of the debug
  server configuration, and the two library calls of \<^verbatim>\<open>NewRouteEmitterConfig\<close>.
  \<^verbatim>\<open>os.Open\<close> returns an error or a file (type \<open>'f\<close>). \<^verbatim>\<open>Decode\<close> writes into the struct
  it is given and returns an error or nil: it yields the struct as it has left it, which
  after an error may be changed in part, and the error.
\<close>

record ('lc, 'ds, 'f) ConfigDeps =
  locket_RetryInterval :: int
  locket_DefaultSessionTTL :: int
  DefaultLagerConfig :: 'lc
  zeroLagerConfig :: 'lc
  zeroDebugServerConfig :: 'ds
  os_Open :: "string \<Rightarrow> string + 'f"
  Decode :: "'f \<Rightarrow> ('lc, 'ds) RouteEmitterConfig \<Rightarrow> ('lc, 'ds) RouteEmitterConfig \<times> string option"

definition time_Second :: int where
  "time_Second = 1000000000"

definition time_Minute :: int where
  "time_Minute = 60 * time_Second"

text \<open>\<^verbatim>\<open>RouteEmitterConfig{}\<close>, the zero value.\<close>

definition zeroRouteEmitterConfig ::
  "('lc, 'ds, 'f) ConfigDeps \<Rightarrow> ('lc, 'ds) RouteEmitterConfig" where
  "zeroRouteEmitterConfig deps =
     \<lparr>BBSAddress = '''', BBSCACertFile = '''', BBSClientCertFile = '''', BBSClientKeyFile = '''',
      BBSClientSessionCacheSize = 0, BBSMaxIdleConnsPerHost = 0, CellID = '''',
      CommunicationTimeout = 0, ConsulCluster = '''', ConsulDownModeNotificationInterval = 0,
      ConsulSessionName = '''', DropsondePort = 0, HealthCheckAddress = '''',
      LockRetryInterval = 0, LockTTL = 0, NATSAddresses = '''', NATSUsername = '''',
      NATSPassword = '''', RouteEmittingWorkers = 0, SyncInterval = 0,
      OAuth = \<lparr>TokenEndpoint = '''', OAuth_Port = 0, SkipSSLValidation = False,
               ClientName = '''', ClientSecret = '''', CACerts = ''''\<rparr>,
      RoutingAPI = \<lparr>URI = '''', RoutingAPI_Port = 0, AuthDisabled = False\<rparr>,
      LagerConfig = zeroLagerConfig deps,
      DebugServerConfig = zeroDebugServerConfig deps\<rparr>"

definition DefaultRouteEmitterConfig ::
  "('lc, 'ds, 'f) ConfigDeps \<Rightarrow> ('lc, 'ds) RouteEmitterConfig" where
  "DefaultRouteEmitterConfig deps =
     (zeroRouteEmitterConfig deps)
       \<lparr>CommunicationTimeout := 30 * time_Second,
        ConsulDownModeNotificationInterval := time_Minute,
        ConsulSessionName := ''route-emitter'',
        DropsondePort := 3457,
        LockRetryInterval := locket_RetryInterval deps,
        LockTTL := locket_DefaultSessionTTL deps,
        NATSAddresses := ''nats://127.0.0.1:4222'',
        NATSUsername := ''nats'',
        NATSPassword := ''nats'',
        RouteEmittingWorkers := 20,
        SyncInterval := time_Minute,
        LagerConfig := DefaultLagerConfig deps\<rparr>"

definition NewRouteEmitterConfig ::
  "('lc, 'ds, 'f) ConfigDeps \<Rightarrow> string \<Rightarrow> ('lc, 'ds) RouteEmitterConfig \<times> string option" where
  "NewRouteEmitterConfig deps configPath =
     (let routeEmitterConfig = DefaultRouteEmitterConfig deps
      in case os_Open deps configPath of
           Inl err \<Rightarrow> (zeroRouteEmitterConfig deps, Some err)
         | Inr configFile \<Rightarrow>
             (case Decode deps configFile routeEmitterConfig of
                (decoded, Some err) \<Rightarrow> (zeroRouteEmitterConfig deps, Some err)
              | (decoded, None) \<Rightarrow> (decoded, None)))"

text \<open>
  A file system with two readable files and a decoder that knows their contents: one
  document sets the cell id, the other sets it and then stops with an error.
\<close>

definition fakeConfigDeps :: "(string, string, string) ConfigDeps" where
  "fakeConfigDeps =
     \<lparr>locket_RetryInterval = 5 * time_Second,
      locket_DefaultSessionTTL = 15 * time_Second,
      DefaultLagerConfig = ''info'',
      zeroLagerConfig = '''',
      zeroDebugServerConfig = '''',
      os_Open = (\<lambda>path. if path = ''config.json'' then Inr ''{cell_id: cell-1}''
                         else if path = ''broken.json'' then Inr ''{cell_id: cell-1,''
                         else Inl ''no such file or directory''),
      Decode = (\<lambda>file cfg. if file = ''{cell_id: cell-1}'' then (cfg\<lparr>CellID := ''cell-1''\<rparr>, None)
                            else if file = ''{cell_id: cell-1,''
                            then (cfg\<lparr>CellID := ''cell-1''\<rparr>, Some ''unexpected EOF'')
                            else (cfg, Some ''invalid character''))\<rparr>"

section \<open>What reaches the emitters\<close>

lemma natsCalls_append: "natsCalls (u @ v) = natsCalls u @ natsCalls v"
  by (induction u rule: natsCalls.induct) simp_all

lemma routingAPICalls_append: "routingAPICalls (u @ v) = routingAPICalls u @ routingAPICalls v"
  by (induction u rule: routingAPICalls.induct) simp_all

lemma natsCalls_log: "natsCalls (log lv lg a err d w) = natsCalls w"
  by (simp add: log_def natsCalls_append)

lemma routingAPICalls_log: "routingAPICalls (log lv lg a err d w) = routingAPICalls w"
  by (simp add: log_def routingAPICalls_append)

lemma natsCalls_emitMessages:
  "natsCalls (emitMessages env lg ms rm h w) =
     natsCalls w @ (case natsEmitter h of None \<Rightarrow> [] | Some ne \<Rightarrow> [ms])"
  by (simp add: emitMessages_def Let_def natsCalls_append natsCalls_log split: option.splits)

lemma routingAPICalls_emitMessages:
  "routingAPICalls (emitMessages env lg ms rm h w) =
     routingAPICalls w @ (case routingAPIEmitter h of None \<Rightarrow> [] | Some re \<Rightarrow> [rm])"
  by (simp add: emitMessages_def Let_def routingAPICalls_append routingAPICalls_log
      split: option.splits)

lemma natsCalls_Emit:
  "natsCalls (NATSHandler_Emit env lg h w) =
     natsCalls w @
     (case natsEmitter h of None \<Rightarrow> [] | Some ne \<Rightarrow> [snd (Emit env (routingTable h))])"
  by (simp add: NATSHandler_Emit_def Let_def split_beta natsCalls_append natsCalls_log
      split: option.splits)

lemma routingAPICalls_Emit:
  "routingAPICalls (NATSHandler_Emit env lg h w) =
     routingAPICalls w @
     (case routingAPIEmitter h of None \<Rightarrow> [] | Some re \<Rightarrow> [fst (Emit env (routingTable h))])"
  by (simp add: NATSHandler_Emit_def Let_def split_beta routingAPICalls_append
      routingAPICalls_log split: option.splits)

lemma natsCalls_sendRouteCounts: "natsCalls (Sync_sendRouteCounts env lg h w) = natsCalls w"
  by (simp add: Sync_sendRouteCounts_def Let_def natsCalls_append natsCalls_log
      split: option.splits)

lemma routingAPICalls_sendRouteCounts:
  "routingAPICalls (Sync_sendRouteCounts env lg h w) = routingAPICalls w"
  by (simp add: Sync_sendRouteCounts_def Let_def routingAPICalls_append routingAPICalls_log
      split: option.splits)

section \<open>One event\<close>

lemmas handle_defs = handleDesiredCreate_def handleDesiredUpdate_def handleDesiredDelete_def
  handleActualCreate_def handleActualUpdate_def handleActualDelete_def

lemma HandleEvent_fields:
  "natsEmitter (fst (HandleEvent env lg e h w)) = natsEmitter h \<and>
   routingAPIEmitter (fst (HandleEvent env lg e h w)) = routingAPIEmitter h \<and>
   localMode (fst (HandleEvent env lg e h w)) = localMode h"
  by (cases e) (simp_all add: handle_defs Let_def split_beta)

lemma HandleEvent_table_indep:
  "routingTable h' = routingTable h \<Longrightarrow>
   routingTable (fst (HandleEvent env lg' e h' w')) = routingTable (fst (HandleEvent env lg e h w))"
  by (cases e) (simp_all add: handle_defs Let_def split_beta)

lemma HandleEvent_natsCalls_detached:
  "natsEmitter h = None \<Longrightarrow> natsCalls (snd (HandleEvent env lg e h w)) = natsCalls w"
  by (cases e) (simp_all add: handle_defs Let_def split_beta natsCalls_emitMessages natsCalls_log)

lemma HandleEvent_routingAPICalls_detached:
  "routingAPIEmitter h = None \<Longrightarrow>
   routingAPICalls (snd (HandleEvent env lg e h w)) = routingAPICalls w"
  by (cases e)
    (simp_all add: handle_defs Let_def split_beta routingAPICalls_emitMessages routingAPICalls_log)

lemma HandleEvent_natsCalls_indep:
  "natsEmitter h' = natsEmitter h \<Longrightarrow> routingTable h' = routingTable h \<Longrightarrow>
   natsCalls w' = natsCalls w \<Longrightarrow>
   natsCalls (snd (HandleEvent env lg' e h' w')) = natsCalls (snd (HandleEvent env lg e h w))"
  by (cases e)
    (simp_all add: handle_defs Let_def split_beta natsCalls_emitMessages natsCalls_log
       split: option.splits)

lemma HandleEvent_routingAPICalls_indep:
  "routingAPIEmitter h' = routingAPIEmitter h \<Longrightarrow> routingTable h' = routingTable h \<Longrightarrow>
   routingAPICalls w' = routingAPICalls w \<Longrightarrow>
   routingAPICalls (snd (HandleEvent env lg' e h' w')) =
   routingAPICalls (snd (HandleEvent env lg e h w))"
  by (cases e)
    (simp_all add: handle_defs Let_def split_beta routingAPICalls_emitMessages
       routingAPICalls_log split: option.splits)

section \<open>The replay and the swap of Sync\<close>

lemma replay_fields:
  "natsEmitter (fst (Sync_replay_loop env lg xs h w)) = natsEmitter h \<and>
   routingAPIEmitter (fst (Sync_replay_loop env lg xs h w)) = routingAPIEmitter h \<and>
   localMode (fst (Sync_replay_loop env lg xs h w)) = localMode h"
proof (induction xs arbitrary: h w)
  case Nil
  show ?case by simp
next
  case (Cons x xs)
  obtain h1 w1 where s: "HandleEvent env lg (snd x) h w = (h1, w1)"
    by (cases "HandleEvent env lg (snd x) h w")
  from HandleEvent_fields [of env lg "snd x" h w] s Cons.IH [of h1 w1]
  show ?case by simp
qed

lemma replay_silent:
  "natsEmitter h = None \<Longrightarrow> routingAPIEmitter h = None \<Longrightarrow>
   natsCalls (snd (Sync_replay_loop env lg xs h w)) = natsCalls w \<and>
   routingAPICalls (snd (Sync_replay_loop env lg xs h w)) = routingAPICalls w"
proof (induction xs arbitrary: h w)
  case Nil
  show ?case by simp
next
  case (Cons x xs)
  obtain h1 w1 where s: "HandleEvent env lg (snd x) h w = (h1, w1)"
    by (cases "HandleEvent env lg (snd x) h w")
  have f: "natsEmitter h1 = None" "routingAPIEmitter h1 = None"
    using HandleEvent_fields [of env lg "snd x" h w] s Cons.prems by simp_all
  have c: "natsCalls w1 = natsCalls w" "routingAPICalls w1 = routingAPICalls w"
    using HandleEvent_natsCalls_detached [of h env lg "snd x" w]
      HandleEvent_routingAPICalls_detached [of h env lg "snd x" w] s Cons.prems by simp_all
  from Cons.IH [OF f, of w1] s c show ?case by simp
qed

lemma replay_foldl:
  "Sync_replay_loop env lg xs h w =
     foldl (\<lambda>hw e. HandleEvent env lg e (fst hw) (snd hw)) (h, w) (map snd xs)"
  by (induction xs arbitrary: h w) (simp_all add: split_beta)

lemma desired_loop_foldl:
  "Sync_desired_loop env ds t = foldl (\<lambda>t d. snd (snd (SetRoutes env None d t))) t ds"
  by (induction ds arbitrary: t) (simp_all add: split_beta)

lemma actuals_loop_foldl:
  "Sync_actuals_loop env as t = foldl (\<lambda>t a. snd (snd (AddEndpoint env a t))) t as"
  by (induction as arbitrary: t) (simp_all add: split_beta)

lemma Sync_table:
  "routingTable (fst (Sync env lg0 desired actuals domains xs h w)) =
     snd (snd (Swap env (routingTable h)
       (routingTable (fst (Sync_replay_loop env (Session ''nats-sync'' [] lg0) xs
          (h\<lparr>natsEmitter := None, routingAPIEmitter := None,
              routingTable := Sync_newTable env (Session ''nats-sync'' [] lg0) desired actuals\<rparr>)
          (log DEBUG (Session ''nats-sync'' [] lg0) ''starting'' None NoData w))))
       domains))"
  by (simp add: Sync_def Let_def split_beta)

lemma Sync_fields:
  "natsEmitter (fst (Sync env lg0 desired actuals domains xs h w)) = natsEmitter h \<and>
   routingAPIEmitter (fst (Sync env lg0 desired actuals domains xs h w)) = routingAPIEmitter h \<and>
   localMode (fst (Sync env lg0 desired actuals domains xs h w)) = localMode h"
  by (simp add: Sync_def Let_def split_beta replay_fields)

lemma Sync_natsCalls:
  "natsCalls (snd (Sync env lg0 desired actuals domains xs h w)) =
     natsCalls w @
     (case natsEmitter h of None \<Rightarrow> []
      | Some ne \<Rightarrow>
          [fst (snd (Swap env (routingTable h)
             (routingTable (fst (Sync_replay_loop env (Session ''nats-sync'' [] lg0) xs
                (h\<lparr>natsEmitter := None, routingAPIEmitter := None,
                    routingTable := Sync_newTable env (Session ''nats-sync'' [] lg0) desired actuals\<rparr>)
                (log DEBUG (Session ''nats-sync'' [] lg0) ''starting'' None NoData w))))
             domains))])"
proof -
  let ?lg = "Session ''nats-sync'' [] lg0"
  let ?h1 = "h\<lparr>natsEmitter := None, routingAPIEmitter := None,
                routingTable := Sync_newTable env ?lg desired actuals\<rparr>"
  let ?w1 = "log DEBUG ?lg ''starting'' None NoData w"
  have "natsCalls (snd (Sync_replay_loop env ?lg xs ?h1 ?w1)) = natsCalls w"
    using replay_silent [of ?h1 env ?lg xs ?w1] by (simp add: natsCalls_log)
  then show ?thesis
    by (simp add: Sync_def Let_def split_beta natsCalls_log natsCalls_append
        natsCalls_emitMessages natsCalls_sendRouteCounts)
qed

lemma Sync_routingAPICalls:
  "routingAPICalls (snd (Sync env lg0 desired actuals domains xs h w)) =
     routingAPICalls w @
     (case routingAPIEmitter h of None \<Rightarrow> []
      | Some re \<Rightarrow>
          [fst (Swap env (routingTable h)
             (routingTable (fst (Sync_replay_loop env (Session ''nats-sync'' [] lg0) xs
                (h\<lparr>natsEmitter := None, routingAPIEmitter := None,
                    routingTable := Sync_newTable env (Session ''nats-sync'' [] lg0) desired actuals\<rparr>)
                (log DEBUG (Session ''nats-sync'' [] lg0) ''starting'' None NoData w))))
             domains)])"
proof -
  let ?lg = "Session ''nats-sync'' [] lg0"
  let ?h1 = "h\<lparr>natsEmitter := None, routingAPIEmitter := None,
                routingTable := Sync_newTable env ?lg desired actuals\<rparr>"
  let ?w1 = "log DEBUG ?lg ''starting'' None NoData w"
  have "routingAPICalls (snd (Sync_replay_loop env ?lg xs ?h1 ?w1)) = routingAPICalls w"
    using replay_silent [of ?h1 env ?lg xs ?w1] by (simp add: routingAPICalls_log)
  then show ?thesis
    by (simp add: Sync_def Let_def split_beta routingAPICalls_log routingAPICalls_append
        routingAPICalls_emitMessages routingAPICalls_sendRouteCounts)
qed

section \<open>Concrete runs\<close>

lemmas fake_defs = fakeDeps_def fakeDelta_def fakeLogger_def fakeHandler_def NewNATSHandler_def
  fakeActual_def failingNATSEmitter_def failingRoutingAPIEmitter_def

lemmas run_defs = Sync_def Sync_newTable_def Sync_sendRouteCounts_def emitMessages_def
  handleDesiredCreate_def handleDesiredUpdate_def handleDesiredDelete_def
  handleActualCreate_def handleActualUpdate_def handleActualDelete_def NATSHandler_Emit_def
  Session_def log_def Let_def

section \<open>The claims about the handler\<close>

text \<open>
  C1, as the code has it. \<^verbatim>\<open>Sync\<close> replays every entry of \<^verbatim>\<open>cachedEvents\<close> once (the map
  holds one event per key) through \<^verbatim>\<open>HandleEvent\<close>, on the handler whose table is the
  newly built one and whose emitters are detached, and hands the table the replay leaves
  to \<^verbatim>\<open>Swap\<close>. The events are replayed in the order in which the \<^verbatim>\<open>range\<close> over the map
  visits its keys.
\<close>

theorem Sync_replays_cached_events:
  assumes "range_of m cachedEvents"
  shows "set (map fst cachedEvents) = dom m \<and> distinct (map fst cachedEvents) \<and>
         map snd cachedEvents = map (\<lambda>k. the (m k)) (map fst cachedEvents) \<and>
         routingTable (fst (Sync env logger0 desired actuals domains cachedEvents handler w)) =
           (let logger = Session ''nats-sync'' [] logger0;
                replayed =
                  foldl (\<lambda>hw event. HandleEvent env logger event (fst hw) (snd hw))
                    (handler\<lparr>natsEmitter := None, routingAPIEmitter := None,
                             routingTable := Sync_newTable env logger desired actuals\<rparr>,
                     log DEBUG logger ''starting'' None NoData w)
                    (map (\<lambda>k. the (m k)) (map fst cachedEvents))
            in snd (snd (Swap env (routingTable handler) (routingTable (fst replayed)) domains)))"
proof -
  from assms have d: "distinct (map fst cachedEvents)" and m: "map_of cachedEvents = m"
    by (simp_all add: range_of_def)
  have "set (map fst cachedEvents) = dom (map_of cachedEvents)"
    by (simp add: dom_map_of_conv_image_fst)
  with m have k: "set (map fst cachedEvents) = dom m"
    by simp
  have "\<forall>x \<in> set cachedEvents. the (map_of cachedEvents (fst x)) = snd x"
    using d by auto
  with m have "\<forall>x \<in> set cachedEvents. the (m (fst x)) = snd x"
    by simp
  then have e: "map snd cachedEvents = map (\<lambda>k. the (m k)) (map fst cachedEvents)"
    by simp
  show ?thesis
    unfolding e [symmetric]
    using d k by (simp add: Sync_table replay_foldl Let_def)
qed

theorem Sync_replays_cached_events_witness:
  "range_of (map_of fakeRange) fakeRange \<and>
   map snd fakeRange = [DesiredLRPRemovedEvent ''p'', DesiredLRPCreatedEvent ''p''] \<and>
   routingTable (fst (Sync fakeDeps fakeLogger [''q''] [] {} fakeRange (fakeHandler None None) [])) =
     [SetRoutesCall None ''q'', RemoveRoutesCall ''p'', SetRoutesCall None ''p'']"
proof -
  have r: "range_of (map_of fakeRange) fakeRange"
    by (simp add: range_of_def fakeRange_def)
  show ?thesis
    using r Sync_replays_cached_events [OF r, where env = fakeDeps and ?logger0.0 = fakeLogger
        and desired = "[''q'']" and actuals = "[]" and domains = "{}"
        and handler = "fakeHandler None None" and w = "[]"]
    by (simp add: fakeRange_def run_defs fake_defs)
qed

text \<open>
  C1, as the claim states it, fails: the replay does not follow the arrival order. A Go
  map holds no order: \<open>fakeRange\<close> is an enumeration of the map that the entries of
  \<open>fakeArrival\<close> make, and on it the replay applies the removal, which arrived second,
  before the creation. The table that \<^verbatim>\<open>Swap\<close> hands over is then not the one that
  the arrival order gives.
\<close>

theorem Sync_arrival_order_counterexample:
  "range_of (map_of fakeArrival) fakeRange \<and>
   map snd fakeArrival = [DesiredLRPCreatedEvent ''p'', DesiredLRPRemovedEvent ''p''] \<and>
   routingTable (fst (Sync fakeDeps fakeLogger [] [] {} fakeRange (fakeHandler None None) [])) =
     [RemoveRoutesCall ''p'', SetRoutesCall None ''p''] \<and>
   routingTable (fst (Sync fakeDeps fakeLogger [] [] {} fakeArrival (fakeHandler None None) [])) =
     [SetRoutesCall None ''p'', RemoveRoutesCall ''p'']"
proof -
  have "map_of fakeRange = map_of fakeArrival"
    by (rule ext) (simp add: fakeRange_def fakeArrival_def)
  then have "range_of (map_of fakeArrival) fakeRange"
    by (simp add: range_of_def fakeRange_def)
  then show ?thesis
    by (simp add: fakeRange_def fakeArrival_def run_defs fake_defs)
qed

text \<open>
  C2. During the replay of \<^verbatim>\<open>cachedEvents\<close> no call reaches the NATS emitter or the
  routing-API emitter. Over the whole of \<^verbatim>\<open>Sync\<close> each emitter the handler has receives
  one call, with the messages (the route mappings) that \<^verbatim>\<open>Swap\<close> has returned, and the
  handler holds its own emitters again afterwards.
\<close>

theorem Sync_emits_only_the_swap_delta:
  "(let logger = Session ''nats-sync'' [] logger0;
        replayed = Sync_replay_loop env logger cachedEvents
                     (handler\<lparr>natsEmitter := None, routingAPIEmitter := None,
                              routingTable := Sync_newTable env logger desired actuals\<rparr>)
                     (log DEBUG logger ''starting'' None NoData w);
        (routeMappings, messages, t) =
           Swap env (routingTable handler) (routingTable (fst replayed)) domains;
        result = Sync env logger0 desired actuals domains cachedEvents handler w
    in natsCalls (snd replayed) = natsCalls w \<and>
       routingAPICalls (snd replayed) = routingAPICalls w \<and>
       natsCalls (snd result) =
         natsCalls w @ (case natsEmitter handler of None \<Rightarrow> [] | Some ne \<Rightarrow> [messages]) \<and>
       routingAPICalls (snd result) =
         routingAPICalls w @
         (case routingAPIEmitter handler of None \<Rightarrow> [] | Some re \<Rightarrow> [routeMappings]) \<and>
       natsEmitter (fst result) = natsEmitter handler \<and>
       routingAPIEmitter (fst result) = routingAPIEmitter handler)"
proof -
  let ?lg = "Session ''nats-sync'' [] logger0"
  let ?h1 = "handler\<lparr>natsEmitter := None, routingAPIEmitter := None,
                routingTable := Sync_newTable env ?lg desired actuals\<rparr>"
  let ?w1 = "log DEBUG ?lg ''starting'' None NoData w"
  have r: "natsCalls (snd (Sync_replay_loop env ?lg cachedEvents ?h1 ?w1)) = natsCalls w"
      "routingAPICalls (snd (Sync_replay_loop env ?lg cachedEvents ?h1 ?w1)) = routingAPICalls w"
    using replay_silent [of ?h1 env ?lg cachedEvents ?w1]
    by (simp_all add: natsCalls_log routingAPICalls_log)
  show ?thesis
    unfolding Let_def split_beta
    using r Sync_natsCalls [of env logger0 desired actuals domains cachedEvents handler w]
      Sync_routingAPICalls [of env logger0 desired actuals domains cachedEvents handler w]
      Sync_fields [of env logger0 desired actuals domains cachedEvents handler w]
    by simp
qed

theorem Sync_emits_only_the_swap_delta_witness:
  "natsCalls (snd (Sync fakeDeps fakeLogger [''q''] [] {} fakeArrival
     (fakeHandler (Some failingNATSEmitter) (Some failingRoutingAPIEmitter)) [])) =
     [\<lparr>RegistrationMessages =
         [SetRoutesCall None ''q'', SetRoutesCall None ''p'', RemoveRoutesCall ''p''],
       UnregistrationMessages = [SetRoutesCall None ''old'']\<rparr>] \<and>
   routingAPICalls (snd (Sync fakeDeps fakeLogger [''q''] [] {} fakeArrival
     (fakeHandler (Some failingNATSEmitter) (Some failingRoutingAPIEmitter)) [])) =
     [[SetRoutesCall None ''q'', SetRoutesCall None ''p'', RemoveRoutesCall ''p'']] \<and>
   natsCalls (snd (Sync fakeDeps fakeLogger [''q''] [] {} fakeArrival
     (fakeHandler None None) [])) = []"
  using Sync_emits_only_the_swap_delta [where env = fakeDeps and ?logger0.0 = fakeLogger
      and desired = "[''q'']" and actuals = "[]" and domains = "{}" and cachedEvents = fakeArrival
      and handler = "fakeHandler (Some failingNATSEmitter) (Some failingRoutingAPIEmitter)"
      and w = "[]"]
    Sync_emits_only_the_swap_delta [where env = fakeDeps and ?logger0.0 = fakeLogger
      and desired = "[''q'']" and actuals = "[]" and domains = "{}" and cachedEvents = fakeArrival
      and handler = "fakeHandler None None" and w = "[]"]
  by (simp add: fakeArrival_def run_defs fake_defs)

text \<open>
  C3. The table that \<^verbatim>\<open>HandleEvent\<close> leaves after an actual-LRP event: after a created
  event it is the table of \<^verbatim>\<open>AddEndpoint\<close> when the state is Running, and the table as it
  was otherwise; after a changed event it is the table of \<^verbatim>\<open>AddEndpoint(after)\<close> when the
  after state is Running, the table of \<^verbatim>\<open>RemoveEndpoint(before)\<close> when the after state is not
  Running and the before state is, and the table as it was otherwise; after a removed
  event it is the table of \<^verbatim>\<open>RemoveEndpoint\<close> when the state is Running, and the table as
  it was otherwise.
\<close>

theorem HandleEvent_Running_rule:
  "routingTable (fst (HandleEvent env logger (ActualLRPCreatedEvent g) handler w)) =
     (let a = NewActualLRPRoutingInfo env g
      in if State (ActualLRP a) = ActualLRPStateRunning env
         then snd (snd (AddEndpoint env a (routingTable handler)))
         else routingTable handler) \<and>
   routingTable (fst (HandleEvent env logger (ActualLRPChangedEvent gb ga) handler w)) =
     (let before = NewActualLRPRoutingInfo env gb; after = NewActualLRPRoutingInfo env ga
      in if State (ActualLRP after) = ActualLRPStateRunning env
         then snd (snd (AddEndpoint env after (routingTable handler)))
         else if State (ActualLRP before) = ActualLRPStateRunning env
         then snd (snd (RemoveEndpoint env before (routingTable handler)))
         else routingTable handler) \<and>
   routingTable (fst (HandleEvent env logger (ActualLRPRemovedEvent g) handler w)) =
     (let a = NewActualLRPRoutingInfo env g
      in if State (ActualLRP a) = ActualLRPStateRunning env
         then snd (snd (RemoveEndpoint env a (routingTable handler)))
         else routingTable handler)"
  by (simp add: handle_defs Let_def split_beta)

theorem HandleEvent_Running_rule_witness:
  "routingTable (fst (HandleEvent fakeDeps fakeLogger
     (ActualLRPCreatedEvent (fakeActual ''p'' ''RUNNING'')) (fakeHandler None None) [])) =
     [SetRoutesCall None ''old'', AddEndpointCall (fakeActual ''p'' ''RUNNING'')] \<and>
   routingTable (fst (HandleEvent fakeDeps fakeLogger
     (ActualLRPCreatedEvent (fakeActual ''p'' ''CLAIMED'')) (fakeHandler None None) [])) =
     [SetRoutesCall None ''old''] \<and>
   routingTable (fst (HandleEvent fakeDeps fakeLogger
     (ActualLRPChangedEvent (fakeActual ''p'' ''CLAIMED'') (fakeActual ''p'' ''RUNNING''))
     (fakeHandler None None) [])) =
     [SetRoutesCall None ''old'', AddEndpointCall (fakeActual ''p'' ''RUNNING'')] \<and>
   routingTable (fst (HandleEvent fakeDeps fakeLogger
     (ActualLRPChangedEvent (fakeActual ''p'' ''RUNNING'') (fakeActual ''p'' ''CRASHED''))
     (fakeHandler None None) [])) =
     [SetRoutesCall None ''old'', RemoveEndpointCall (fakeActual ''p'' ''RUNNING'')] \<and>
   routingTable (fst (HandleEvent fakeDeps fakeLogger
     (ActualLRPChangedEvent (fakeActual ''p'' ''UNCLAIMED'') (fakeActual ''p'' ''CLAIMED''))
     (fakeHandler None None) [])) =
     [SetRoutesCall None ''old''] \<and>
   routingTable (fst (HandleEvent fakeDeps fakeLogger
     (ActualLRPRemovedEvent (fakeActual ''p'' ''RUNNING'')) (fakeHandler None None) [])) =
     [SetRoutesCall None ''old'', RemoveEndpointCall (fakeActual ''p'' ''RUNNING'')] \<and>
   routingTable (fst (HandleEvent fakeDeps fakeLogger
     (ActualLRPRemovedEvent (fakeActual ''p'' ''CRASHED'')) (fakeHandler None None) [])) =
     [SetRoutesCall None ''old'']"
  using HandleEvent_Running_rule [where env = fakeDeps and logger = fakeLogger
      and handler = "fakeHandler None None" and w = "[]"
      and g = "fakeActual ''p'' ''RUNNING''"
      and gb = "fakeActual ''p'' ''CLAIMED''" and ga = "fakeActual ''p'' ''RUNNING''"]
    HandleEvent_Running_rule [where env = fakeDeps and logger = fakeLogger
      and handler = "fakeHandler None None" and w = "[]"
      and g = "fakeActual ''p'' ''CLAIMED''"
      and gb = "fakeActual ''p'' ''RUNNING''" and ga = "fakeActual ''p'' ''CRASHED''"]
    HandleEvent_Running_rule [where env = fakeDeps and logger = fakeLogger
      and handler = "fakeHandler None None" and w = "[]"
      and g = "fakeActual ''p'' ''CRASHED''"
      and gb = "fakeActual ''p'' ''UNCLAIMED''" and ga = "fakeActual ''p'' ''CLAIMED''"]
  by (simp add: fake_defs)

text \<open>
  C4. The table that the first phase of \<^verbatim>\<open>Sync\<close> builds is the table of the
  specification's fold; with no cached events it is this table that \<^verbatim>\<open>Swap\<close> receives.
\<close>

theorem Sync_builds_table_by_folding:
  "Sync_newTable env logger desired actuals = spec_build_table env logger desired actuals \<and>
   routingTable (fst (Sync env logger0 desired actuals domains [] handler w)) =
     snd (snd (Swap env (routingTable handler)
       (spec_build_table env (Session ''nats-sync'' [] logger0) desired actuals) domains))"
  by (simp add: Sync_table Sync_newTable_def spec_build_table_def desired_loop_foldl
      actuals_loop_foldl)

theorem Sync_builds_table_by_folding_witness:
  "Sync_newTable fakeDeps fakeLogger [''a'', ''b''] [fakeActual ''a'' ''RUNNING''] =
     [SetRoutesCall None ''a'', SetRoutesCall None ''b'',
      AddEndpointCall (fakeActual ''a'' ''RUNNING'')] \<and>
   routingTable (fst (Sync fakeDeps fakeLogger [''a'', ''b''] [fakeActual ''a'' ''RUNNING''] {} []
     (fakeHandler None None) [])) =
     [SetRoutesCall None ''a'', SetRoutesCall None ''b'',
      AddEndpointCall (fakeActual ''a'' ''RUNNING'')]"
  using Sync_builds_table_by_folding [where env = fakeDeps and logger = fakeLogger
      and ?logger0.0 = fakeLogger and desired = "[''a'', ''b'']"
      and actuals = "[fakeActual ''a'' ''RUNNING'']" and domains = "{}"
      and handler = "fakeHandler None None" and w = "[]"]
  by (simp add: spec_build_table_def fake_defs)

text \<open>
  C5. With both emitters present, whatever either of them returns at any call (an error
  or nil): \<^verbatim>\<open>emitMessages\<close> calls the NATS emitter once with the messages and the
  routing-API emitter once with the route mappings, \<^verbatim>\<open>Emit\<close> does the same with the dump
  of the table, and the table that \<^verbatim>\<open>HandleEvent\<close> leaves is the one it leaves with any
  other pair of emitters, or with none.
\<close>

theorem emitter_errors_block_nothing:
  assumes "natsEmitter handler = Some ne" and "routingAPIEmitter handler = Some re"
  shows "natsCalls (emitMessages env logger messagesToEmit routeMappings handler w) =
           natsCalls w @ [messagesToEmit] \<and>
         routingAPICalls (emitMessages env logger messagesToEmit routeMappings handler w) =
           routingAPICalls w @ [routeMappings] \<and>
         natsCalls (NATSHandler_Emit env logger handler w) =
           natsCalls w @ [snd (Emit env (routingTable handler))] \<and>
         routingAPICalls (NATSHandler_Emit env logger handler w) =
           routingAPICalls w @ [fst (Emit env (routingTable handler))] \<and>
         routingTable (fst (HandleEvent env logger event handler w)) =
           routingTable (fst (HandleEvent env logger event
             (handler\<lparr>natsEmitter := ne1, routingAPIEmitter := re1\<rparr>) w1))"
  using assms HandleEvent_table_indep [of "handler\<lparr>natsEmitter := ne1, routingAPIEmitter := re1\<rparr>"
      handler env logger event w1 logger w]
  by (simp add: natsCalls_emitMessages routingAPICalls_emitMessages natsCalls_Emit
      routingAPICalls_Emit)

theorem emitter_errors_block_nothing_witness:
  "natsEmitter (fakeHandler (Some failingNATSEmitter) (Some failingRoutingAPIEmitter)) =
     Some failingNATSEmitter \<and>
   failingNATSEmitter [] \<lparr>RegistrationMessages = [], UnregistrationMessages = []\<rparr> =
     Some ''nats-down'' \<and>
   failingRoutingAPIEmitter [] [] = Some ''routing-api-down'' \<and>
   routingAPICalls (snd (HandleEvent fakeDeps fakeLogger (DesiredLRPCreatedEvent ''p'')
     (fakeHandler (Some failingNATSEmitter) (Some failingRoutingAPIEmitter)) [])) =
     [[SetRoutesCall None ''p'']] \<and>
   natsCalls (NATSHandler_Emit fakeDeps fakeLogger
     (fakeHandler (Some failingNATSEmitter) (Some failingRoutingAPIEmitter)) []) =
     [\<lparr>RegistrationMessages = [SetRoutesCall None ''old''], UnregistrationMessages = []\<rparr>] \<and>
   routingAPICalls (NATSHandler_Emit fakeDeps fakeLogger
     (fakeHandler (Some failingNATSEmitter) (Some failingRoutingAPIEmitter)) []) =
     [[SetRoutesCall None ''old'']] \<and>
   routingTable (fst (HandleEvent fakeDeps fakeLogger (DesiredLRPCreatedEvent ''p'')
     (fakeHandler (Some failingNATSEmitter) (Some failingRoutingAPIEmitter)) [])) =
     [SetRoutesCall None ''old'', SetRoutesCall None ''p'']"
proof -
  let ?h = "fakeHandler (Some failingNATSEmitter) (Some failingRoutingAPIEmitter)"
  have n: "natsEmitter ?h = Some failingNATSEmitter"
    and r: "routingAPIEmitter ?h = Some failingRoutingAPIEmitter"
    by (simp_all add: fakeHandler_def NewNATSHandler_def)
  show ?thesis
    using n emitter_errors_block_nothing [OF n r, where env = fakeDeps and logger = fakeLogger
        and w = "[]" and event = "DesiredLRPCreatedEvent ''p''" and ?ne1.0 = None
        and ?re1.0 = None and ?w1.0 = "[]"]
    by (simp add: run_defs fake_defs)
qed

text \<open>
  C6. An event that is none of the six recognised kinds leaves the handler, and so its
  table, as it was; the one thing that happens is an error log line that carries the
  event type. No emitter is called.
\<close>

theorem HandleEvent_unrecognized:
  "HandleEvent env logger (OtherEvent eventType) handler w =
     (handler, w @ [LogLine ERROR logger ''did-not-handle-unrecognizable-event''
                      (Some ''unrecognizable-event'') (EventTypeData eventType)])"
  by (simp add: log_def)

theorem HandleEvent_unrecognized_witness:
  "HandleEvent fakeDeps fakeLogger (OtherEvent ''actual_lrp_crashed'') (fakeHandler None None) [] =
     (fakeHandler None None,
      [LogLine ERROR fakeLogger ''did-not-handle-unrecognizable-event''
         (Some ''unrecognizable-event'') (EventTypeData ''actual_lrp_crashed'')])"
  using HandleEvent_unrecognized [of fakeDeps fakeLogger "''actual_lrp_crashed''"
      "fakeHandler None None" "[]"]
  by simp

text \<open>
  C7. A handler without a NATS emitter makes no NATS call in \<^verbatim>\<open>Emit\<close>, in
  \<^verbatim>\<open>emitMessages\<close> and in \<^verbatim>\<open>HandleEvent\<close>, while the routing-API calls and the table are
  those of the same handler with a NATS emitter; and the same with the two emitters
  exchanged. The channel of an emitter that is present is served, whether or not the other
  emitter is present: \<^verbatim>\<open>emitMessages\<close> calls it once with its part of the delta, \<^verbatim>\<open>Emit\<close>
  once with its part of the dump of the table, and \<^verbatim>\<open>HandleEvent\<close> once with its part of
  what the table's mutator has returned for the event (for a changed actual LRP that is
  Running neither before nor after, with the zero values; not at all for a created or
  removed actual LRP that is not Running, nor for an unrecognised event). The table that
  \<^verbatim>\<open>HandleEvent\<close> leaves is the one the mutator has returned. Both functions return in
  every case.
\<close>

theorem absent_emitter_disables_only_its_channel:
  "(let t = routingTable handler;
        running = (\<lambda>a. State (ActualLRP a) = ActualLRPStateRunning env);
        deltas =
          (case event of
             DesiredLRPCreatedEvent d \<Rightarrow> [SetRoutes env None (DesiredLRPSchedulingInfo env d) t]
           | DesiredLRPChangedEvent b a \<Rightarrow>
               [SetRoutes env (Some (DesiredLRPSchedulingInfo env b))
                  (DesiredLRPSchedulingInfo env a) t]
           | DesiredLRPRemovedEvent d \<Rightarrow> [RemoveRoutes env (DesiredLRPSchedulingInfo env d) t]
           | ActualLRPCreatedEvent g \<Rightarrow>
               if running (NewActualLRPRoutingInfo env g)
               then [AddEndpoint env (NewActualLRPRoutingInfo env g) t] else []
           | ActualLRPChangedEvent gb ga \<Rightarrow>
               if running (NewActualLRPRoutingInfo env ga)
               then [AddEndpoint env (NewActualLRPRoutingInfo env ga) t]
               else if running (NewActualLRPRoutingInfo env gb)
               then [RemoveEndpoint env (NewActualLRPRoutingInfo env gb) t]
               else [(zeroTCPRouteMappings env,
                      \<lparr>RegistrationMessages = [], UnregistrationMessages = []\<rparr>, t)]
           | ActualLRPRemovedEvent g \<Rightarrow>
               if running (NewActualLRPRoutingInfo env g)
               then [RemoveEndpoint env (NewActualLRPRoutingInfo env g) t] else []
           | OtherEvent eventType \<Rightarrow> [])
    in
   (natsEmitter handler = None \<longrightarrow>
      natsCalls (NATSHandler_Emit env logger handler w) = natsCalls w \<and>
      natsCalls (snd (HandleEvent env logger event handler w)) = natsCalls w \<and>
      routingAPICalls (NATSHandler_Emit env logger handler w) =
        routingAPICalls (NATSHandler_Emit env logger (handler\<lparr>natsEmitter := Some ne\<rparr>) w) \<and>
      routingAPICalls (snd (HandleEvent env logger event handler w)) =
        routingAPICalls (snd (HandleEvent env logger event (handler\<lparr>natsEmitter := Some ne\<rparr>) w)) \<and>
      routingTable (fst (HandleEvent env logger event handler w)) =
        routingTable (fst (HandleEvent env logger event (handler\<lparr>natsEmitter := Some ne\<rparr>) w)) \<and>
      natsCalls (emitMessages env logger messagesToEmit routeMappings handler w) = natsCalls w) \<and>
   (routingAPIEmitter handler = None \<longrightarrow>
      routingAPICalls (NATSHandler_Emit env logger handler w) = routingAPICalls w \<and>
      routingAPICalls (snd (HandleEvent env logger event handler w)) = routingAPICalls w \<and>
      natsCalls (NATSHandler_Emit env logger handler w) =
        natsCalls (NATSHandler_Emit env logger (handler\<lparr>routingAPIEmitter := Some re\<rparr>) w) \<and>
      natsCalls (snd (HandleEvent env logger event handler w)) =
        natsCalls (snd (HandleEvent env logger event (handler\<lparr>routingAPIEmitter := Some re\<rparr>) w)) \<and>
      routingTable (fst (HandleEvent env logger event handler w)) =
        routingTable (fst (HandleEvent env logger event
          (handler\<lparr>routingAPIEmitter := Some re\<rparr>) w)) \<and>
      routingAPICalls (emitMessages env logger messagesToEmit routeMappings handler w) =
        routingAPICalls w) \<and>
   (routingAPIEmitter handler = Some re0 \<longrightarrow>
      routingAPICalls (emitMessages env logger messagesToEmit routeMappings handler w) =
        routingAPICalls w @ [routeMappings] \<and>
      routingAPICalls (NATSHandler_Emit env logger handler w) =
        routingAPICalls w @ [fst (Emit env t)] \<and>
      routingAPICalls (snd (HandleEvent env logger event handler w)) =
        routingAPICalls w @ map fst deltas) \<and>
   (natsEmitter handler = Some ne0 \<longrightarrow>
      natsCalls (emitMessages env logger messagesToEmit routeMappings handler w) =
        natsCalls w @ [messagesToEmit] \<and>
      natsCalls (NATSHandler_Emit env logger handler w) =
        natsCalls w @ [snd (Emit env t)] \<and>
      natsCalls (snd (HandleEvent env logger event handler w)) =
        natsCalls w @ map (\<lambda>delta. fst (snd delta)) deltas) \<and>
   routingTable (fst (HandleEvent env logger event handler w)) =
     (case deltas of [] \<Rightarrow> t | delta # rest \<Rightarrow> snd (snd delta)))"
proof -
  have t1: "routingTable (fst (HandleEvent env logger event handler w)) =
        routingTable (fst (HandleEvent env logger event (handler\<lparr>natsEmitter := Some ne\<rparr>) w))"
    by (rule HandleEvent_table_indep) simp
  have t2: "routingTable (fst (HandleEvent env logger event handler w)) =
        routingTable (fst (HandleEvent env logger event
          (handler\<lparr>routingAPIEmitter := Some re\<rparr>) w))"
    by (rule HandleEvent_table_indep) simp
  have r: "routingAPICalls (snd (HandleEvent env logger event handler w)) =
        routingAPICalls (snd (HandleEvent env logger event (handler\<lparr>natsEmitter := Some ne\<rparr>) w))"
    by (rule HandleEvent_routingAPICalls_indep) simp_all
  have n: "natsCalls (snd (HandleEvent env logger event handler w)) =
        natsCalls (snd (HandleEvent env logger event (handler\<lparr>routingAPIEmitter := Some re\<rparr>) w))"
    by (rule HandleEvent_natsCalls_indep) simp_all
  have relative:
    "(natsEmitter handler = None \<longrightarrow>
        natsCalls (NATSHandler_Emit env logger handler w) = natsCalls w \<and>
        natsCalls (snd (HandleEvent env logger event handler w)) = natsCalls w \<and>
        routingAPICalls (NATSHandler_Emit env logger handler w) =
          routingAPICalls (NATSHandler_Emit env logger (handler\<lparr>natsEmitter := Some ne\<rparr>) w) \<and>
        routingAPICalls (snd (HandleEvent env logger event handler w)) =
          routingAPICalls (snd (HandleEvent env logger event (handler\<lparr>natsEmitter := Some ne\<rparr>) w)) \<and>
        routingTable (fst (HandleEvent env logger event handler w)) =
          routingTable (fst (HandleEvent env logger event (handler\<lparr>natsEmitter := Some ne\<rparr>) w)) \<and>
        natsCalls (emitMessages env logger messagesToEmit routeMappings handler w) = natsCalls w) \<and>
     (routingAPIEmitter handler = None \<longrightarrow>
        routingAPICalls (NATSHandler_Emit env logger handler w) = routingAPICalls w \<and>
        routingAPICalls (snd (HandleEvent env logger event handler w)) = routingAPICalls w \<and>
        natsCalls (NATSHandler_Emit env logger handler w) =
          natsCalls (NATSHandler_Emit env logger (handler\<lparr>routingAPIEmitter := Some re\<rparr>) w) \<and>
        natsCalls (snd (HandleEvent env logger event handler w)) =
          natsCalls (snd (HandleEvent env logger event (handler\<lparr>routingAPIEmitter := Some re\<rparr>) w)) \<and>
        routingTable (fst (HandleEvent env logger event handler w)) =
          routingTable (fst (HandleEvent env logger event
            (handler\<lparr>routingAPIEmitter := Some re\<rparr>) w)) \<and>
        routingAPICalls (emitMessages env logger messagesToEmit routeMappings handler w) =
          routingAPICalls w)"
    using t1 t2 r n
    by (simp add: natsCalls_Emit routingAPICalls_Emit HandleEvent_natsCalls_detached
        HandleEvent_routingAPICalls_detached natsCalls_emitMessages routingAPICalls_emitMessages
        split: option.splits)
  have served:
    "(routingAPIEmitter handler = Some re0 \<longrightarrow>
        routingAPICalls (emitMessages env logger messagesToEmit routeMappings handler w) =
          routingAPICalls w @ [routeMappings] \<and>
        routingAPICalls (NATSHandler_Emit env logger handler w) =
          routingAPICalls w @ [fst (Emit env (routingTable handler))]) \<and>
     (natsEmitter handler = Some ne0 \<longrightarrow>
        natsCalls (emitMessages env logger messagesToEmit routeMappings handler w) =
          natsCalls w @ [messagesToEmit] \<and>
        natsCalls (NATSHandler_Emit env logger handler w) =
          natsCalls w @ [snd (Emit env (routingTable handler))])"
    by (simp add: natsCalls_Emit routingAPICalls_Emit natsCalls_emitMessages
        routingAPICalls_emitMessages)
  have event:
    "(routingAPIEmitter handler = Some re0 \<longrightarrow>
        routingAPICalls (snd (HandleEvent env logger event handler w)) =
          routingAPICalls w @ map fst
            (case event of
               DesiredLRPCreatedEvent d \<Rightarrow>
                 [SetRoutes env None (DesiredLRPSchedulingInfo env d) (routingTable handler)]
             | DesiredLRPChangedEvent b a \<Rightarrow>
                 [SetRoutes env (Some (DesiredLRPSchedulingInfo env b))
                    (DesiredLRPSchedulingInfo env a) (routingTable handler)]
             | DesiredLRPRemovedEvent d \<Rightarrow>
                 [RemoveRoutes env (DesiredLRPSchedulingInfo env d) (routingTable handler)]
             | ActualLRPCreatedEvent g \<Rightarrow>
                 if State (ActualLRP (NewActualLRPRoutingInfo env g)) = ActualLRPStateRunning env
                 then [AddEndpoint env (NewActualLRPRoutingInfo env g) (routingTable handler)]
                 else []
             | ActualLRPChangedEvent gb ga \<Rightarrow>
                 if State (ActualLRP (NewActualLRPRoutingInfo env ga)) = ActualLRPStateRunning env
                 then [AddEndpoint env (NewActualLRPRoutingInfo env ga) (routingTable handler)]
                 else if State (ActualLRP (NewActualLRPRoutingInfo env gb)) =
                         ActualLRPStateRunning env
                 then [RemoveEndpoint env (NewActualLRPRoutingInfo env gb) (routingTable handler)]
                 else [(zeroTCPRouteMappings env,
                        \<lparr>RegistrationMessages = [], UnregistrationMessages = []\<rparr>,
                        routingTable handler)]
             | ActualLRPRemovedEvent g \<Rightarrow>
                 if State (ActualLRP (NewActualLRPRoutingInfo env g)) = ActualLRPStateRunning env
                 then [RemoveEndpoint env (NewActualLRPRoutingInfo env g) (routingTable handler)]
                 else []
             | OtherEvent eventType \<Rightarrow> [])) \<and>
     (natsEmitter handler = Some ne0 \<longrightarrow>
        natsCalls (snd (HandleEvent env logger event handler w)) =
          natsCalls w @ map (\<lambda>delta. fst (snd delta))
            (case event of
               DesiredLRPCreatedEvent d \<Rightarrow>
                 [SetRoutes env None (DesiredLRPSchedulingInfo env d) (routingTable handler)]
             | DesiredLRPChangedEvent b a \<Rightarrow>
                 [SetRoutes env (Some (DesiredLRPSchedulingInfo env b))
                    (DesiredLRPSchedulingInfo env a) (routingTable handler)]
             | DesiredLRPRemovedEvent d \<Rightarrow>
                 [RemoveRoutes env (DesiredLRPSchedulingInfo env d) (routingTable handler)]
             | ActualLRPCreatedEvent g \<Rightarrow>
                 if State (ActualLRP (NewActualLRPRoutingInfo env g)) = ActualLRPStateRunning env
                 then [AddEndpoint env (NewActualLRPRoutingInfo env g) (routingTable handler)]
                 else []
             | ActualLRPChangedEvent gb ga \<Rightarrow>
                 if State (ActualLRP (NewActualLRPRoutingInfo env ga)) = ActualLRPStateRunning env
                 then [AddEndpoint env (NewActualLRPRoutingInfo env ga) (routingTable handler)]
                 else if State (ActualLRP (NewActualLRPRoutingInfo env gb)) =
                         ActualLRPStateRunning env
                 then [RemoveEndpoint env (NewActualLRPRoutingInfo env gb) (routingTable handler)]
                 else [(zeroTCPRouteMappings env,
                        \<lparr>RegistrationMessages = [], UnregistrationMessages = []\<rparr>,
                        routingTable handler)]
             | ActualLRPRemovedEvent g \<Rightarrow>
                 if State (ActualLRP (NewActualLRPRoutingInfo env g)) = ActualLRPStateRunning env
                 then [RemoveEndpoint env (NewActualLRPRoutingInfo env g) (routingTable handler)]
                 else []
             | OtherEvent eventType \<Rightarrow> [])) \<and>
     routingTable (fst (HandleEvent env logger event handler w)) =
       (case (case event of
               DesiredLRPCreatedEvent d \<Rightarrow>
                 [SetRoutes env None (DesiredLRPSchedulingInfo env d) (routingTable handler)]
             | DesiredLRPChangedEvent b a \<Rightarrow>
                 [SetRoutes env (Some (DesiredLRPSchedulingInfo env b))
                    (DesiredLRPSchedulingInfo env a) (routingTable handler)]
             | DesiredLRPRemovedEvent d \<Rightarrow>
                 [RemoveRoutes env (DesiredLRPSchedulingInfo env d) (routingTable handler)]
             | ActualLRPCreatedEvent g \<Rightarrow>
                 if State (ActualLRP (NewActualLRPRoutingInfo env g)) = ActualLRPStateRunning env
                 then [AddEndpoint env (NewActualLRPRoutingInfo env g) (routingTable handler)]
                 else []
             | ActualLRPChangedEvent gb ga \<Rightarrow>
                 if State (ActualLRP (NewActualLRPRoutingInfo env ga)) = ActualLRPStateRunning env
                 then [AddEndpoint env (NewActualLRPRoutingInfo env ga) (routingTable handler)]
                 else if State (ActualLRP (NewActualLRPRoutingInfo env gb)) =
                         ActualLRPStateRunning env
                 then [RemoveEndpoint env (NewActualLRPRoutingInfo env gb) (routingTable handler)]
                 else [(zeroTCPRouteMappings env,
                        \<lparr>RegistrationMessages = [], UnregistrationMessages = []\<rparr>,
                        routingTable handler)]
             | ActualLRPRemovedEvent g \<Rightarrow>
                 if State (ActualLRP (NewActualLRPRoutingInfo env g)) = ActualLRPStateRunning env
                 then [RemoveEndpoint env (NewActualLRPRoutingInfo env g) (routingTable handler)]
                 else []
             | OtherEvent eventType \<Rightarrow> []) of
          [] \<Rightarrow> routingTable handler
        | delta # rest \<Rightarrow> snd (snd delta))"
    by (cases event)
      (simp_all add: handle_defs Let_def split_beta natsCalls_emitMessages natsCalls_log
         routingAPICalls_emitMessages routingAPICalls_log)
  show ?thesis
    unfolding Let_def
    using relative served event by simp
qed

theorem absent_emitter_disables_only_its_channel_witness:
  "natsEmitter (fakeHandler None (Some failingRoutingAPIEmitter)) = None \<and>
   natsCalls (NATSHandler_Emit fakeDeps fakeLogger
     (fakeHandler None (Some failingRoutingAPIEmitter)) []) = [] \<and>
   natsCalls (snd (HandleEvent fakeDeps fakeLogger (DesiredLRPCreatedEvent ''p'')
     (fakeHandler None (Some failingRoutingAPIEmitter)) [])) = [] \<and>
   routingAPICalls (snd (HandleEvent fakeDeps fakeLogger (DesiredLRPCreatedEvent ''p'')
     (fakeHandler None (Some failingRoutingAPIEmitter)) [])) = [[SetRoutesCall None ''p'']] \<and>
   routingAPIEmitter (fakeHandler (Some failingNATSEmitter) None) = None \<and>
   routingAPICalls (NATSHandler_Emit fakeDeps fakeLogger
     (fakeHandler (Some failingNATSEmitter) None) []) = [] \<and>
   routingAPICalls (snd (HandleEvent fakeDeps fakeLogger (DesiredLRPCreatedEvent ''p'')
     (fakeHandler (Some failingNATSEmitter) None) [])) = [] \<and>
   routingAPIEmitter (fakeHandler None (Some failingRoutingAPIEmitter)) =
     Some failingRoutingAPIEmitter \<and>
   routingAPICalls (NATSHandler_Emit fakeDeps fakeLogger
     (fakeHandler None (Some failingRoutingAPIEmitter)) []) = [[SetRoutesCall None ''old'']] \<and>
   natsEmitter (fakeHandler (Some failingNATSEmitter) None) = Some failingNATSEmitter \<and>
   natsCalls (NATSHandler_Emit fakeDeps fakeLogger
     (fakeHandler (Some failingNATSEmitter) None) []) =
     [\<lparr>RegistrationMessages = [SetRoutesCall None ''old''], UnregistrationMessages = []\<rparr>] \<and>
   natsCalls (snd (HandleEvent fakeDeps fakeLogger (DesiredLRPCreatedEvent ''p'')
     (fakeHandler (Some failingNATSEmitter) None) [])) =
     [\<lparr>RegistrationMessages = [SetRoutesCall None ''p''], UnregistrationMessages = []\<rparr>] \<and>
   routingTable (fst (HandleEvent fakeDeps fakeLogger (DesiredLRPCreatedEvent ''p'')
     (fakeHandler None (Some failingRoutingAPIEmitter)) [])) =
     [SetRoutesCall None ''old'', SetRoutesCall None ''p'']"
proof -
  let ?h = "fakeHandler None (Some failingRoutingAPIEmitter)"
  let ?k = "fakeHandler (Some failingNATSEmitter) None"
  have n: "natsEmitter ?h = None" and r: "routingAPIEmitter ?k = None"
    and rh: "routingAPIEmitter ?h = Some failingRoutingAPIEmitter"
    and nk: "natsEmitter ?k = Some failingNATSEmitter"
    by (simp_all add: fakeHandler_def NewNATSHandler_def)
  show ?thesis
    using n r rh nk
      absent_emitter_disables_only_its_channel [where handler = ?h and env = fakeDeps
        and logger = fakeLogger and w = "[]" and event = "DesiredLRPCreatedEvent ''p''"
        and ne = failingNATSEmitter and re = failingRoutingAPIEmitter
        and ?re0.0 = failingRoutingAPIEmitter and ?ne0.0 = failingNATSEmitter]
      absent_emitter_disables_only_its_channel [where handler = ?k and env = fakeDeps
        and logger = fakeLogger and w = "[]" and event = "DesiredLRPCreatedEvent ''p''"
        and ne = failingNATSEmitter and re = failingRoutingAPIEmitter
        and ?re0.0 = failingRoutingAPIEmitter and ?ne0.0 = failingNATSEmitter]
    by (simp add: run_defs fake_defs)
qed

text \<open>
  C8. \<^verbatim>\<open>ShouldRefreshDesired\<close> returns the negation of what \<^verbatim>\<open>HasExternalRoutes\<close> returns
  for the handler's table, and leaves the handler as it was.
\<close>

theorem ShouldRefreshDesired_negates:
  "ShouldRefreshDesired env actual handler =
     (\<not> HasExternalRoutes env actual (routingTable handler), handler)"
  by (simp add: ShouldRefreshDesired_def)

theorem ShouldRefreshDesired_negates_witness:
  "HasExternalRoutes fakeDeps (fakeActual ''p'' ''RUNNING'')
     (routingTable (fakeHandler None None)) \<and>
   ShouldRefreshDesired fakeDeps (fakeActual ''p'' ''RUNNING'') (fakeHandler None None) =
     (False, fakeHandler None None) \<and>
   ShouldRefreshDesired fakeDeps (fakeActual ''p'' ''RUNNING'') (NewNATSHandler [] None None False) =
     (True, NewNATSHandler [] None None False)"
  using ShouldRefreshDesired_negates [of fakeDeps "fakeActual ''p'' ''RUNNING''"
      "fakeHandler None None"]
    ShouldRefreshDesired_negates [of fakeDeps "fakeActual ''p'' ''RUNNING''"
      "NewNATSHandler [] None None False"]
  by (simp add: fakeDeps_def fakeHandler_def NewNATSHandler_def)

section \<open>The claim about the Syncer\<close>






section \<open>The claim about the configuration\<close>

lemma zero_is_not_default: "zeroRouteEmitterConfig deps \<noteq> DefaultRouteEmitterConfig deps"
proof
  assume "zeroRouteEmitterConfig deps = DefaultRouteEmitterConfig deps"
  then have "DropsondePort (zeroRouteEmitterConfig deps) =
             DropsondePort (DefaultRouteEmitterConfig deps)"
    by simp
  then show False
    by (simp add: zeroRouteEmitterConfig_def DefaultRouteEmitterConfig_def)
qed

text \<open>
  C10. When the file opens and decodes without an error, \<^verbatim>\<open>NewRouteEmitterConfig\<close>
  returns, with no error, what the decoder has made of the defaults of
  \<^verbatim>\<open>DefaultRouteEmitterConfig\<close>. When the file does not open, or the decoder returns an
  error (whatever it has written before), it returns the zero value, which is not the
  defaults, and the error.
\<close>

theorem NewRouteEmitterConfig_results:
  "(os_Open deps configPath = Inr configFile \<and>
    Decode deps configFile (DefaultRouteEmitterConfig deps) = (decoded, None) \<longrightarrow>
      NewRouteEmitterConfig deps configPath = (decoded, None)) \<and>
   (os_Open deps configPath = Inl err \<longrightarrow>
      NewRouteEmitterConfig deps configPath = (zeroRouteEmitterConfig deps, Some err)) \<and>
   (os_Open deps configPath = Inr configFile \<and>
    Decode deps configFile (DefaultRouteEmitterConfig deps) = (decoded, Some err) \<longrightarrow>
      NewRouteEmitterConfig deps configPath = (zeroRouteEmitterConfig deps, Some err)) \<and>
   zeroRouteEmitterConfig deps \<noteq> DefaultRouteEmitterConfig deps"
  using zero_is_not_default [of deps] by (simp add: NewRouteEmitterConfig_def)

theorem NewRouteEmitterConfig_results_witness:
  "os_Open fakeConfigDeps ''config.json'' = Inr ''{cell_id: cell-1}'' \<and>
   NewRouteEmitterConfig fakeConfigDeps ''config.json'' =
     ((DefaultRouteEmitterConfig fakeConfigDeps)\<lparr>CellID := ''cell-1''\<rparr>, None) \<and>
   os_Open fakeConfigDeps ''missing.json'' = Inl ''no such file or directory'' \<and>
   NewRouteEmitterConfig fakeConfigDeps ''missing.json'' =
     (zeroRouteEmitterConfig fakeConfigDeps, Some ''no such file or directory'') \<and>
   os_Open fakeConfigDeps ''broken.json'' = Inr ''{cell_id: cell-1,'' \<and>
   Decode fakeConfigDeps ''{cell_id: cell-1,'' (DefaultRouteEmitterConfig fakeConfigDeps) =
     ((DefaultRouteEmitterConfig fakeConfigDeps)\<lparr>CellID := ''cell-1''\<rparr>, Some ''unexpected EOF'') \<and>
   NewRouteEmitterConfig fakeConfigDeps ''broken.json'' =
     (zeroRouteEmitterConfig fakeConfigDeps, Some ''unexpected EOF'') \<and>
   NATSAddresses (fst (NewRouteEmitterConfig fakeConfigDeps ''config.json'')) =
     ''nats://127.0.0.1:4222'' \<and>
   NATSAddresses (fst (NewRouteEmitterConfig fakeConfigDeps ''broken.json'')) = ''''"
proof -
  let ?d = "DefaultRouteEmitterConfig fakeConfigDeps"
  have o1: "os_Open fakeConfigDeps ''config.json'' = Inr ''{cell_id: cell-1}''"
    and o2: "os_Open fakeConfigDeps ''missing.json'' = Inl ''no such file or directory''"
    and o3: "os_Open fakeConfigDeps ''broken.json'' = Inr ''{cell_id: cell-1,''"
    by (simp_all add: fakeConfigDeps_def)
  have d1: "Decode fakeConfigDeps ''{cell_id: cell-1}'' ?d = (?d\<lparr>CellID := ''cell-1''\<rparr>, None)"
    and d3: "Decode fakeConfigDeps ''{cell_id: cell-1,'' ?d =
               (?d\<lparr>CellID := ''cell-1''\<rparr>, Some ''unexpected EOF'')"
    by (simp_all add: fakeConfigDeps_def)
  have n1: "NewRouteEmitterConfig fakeConfigDeps ''config.json'' = (?d\<lparr>CellID := ''cell-1''\<rparr>, None)"
    using o1 d1
      NewRouteEmitterConfig_results [of fakeConfigDeps "''config.json''" "''{cell_id: cell-1}''"
        "?d\<lparr>CellID := ''cell-1''\<rparr>" "''x''"]
    by simp
  have n2: "NewRouteEmitterConfig fakeConfigDeps ''missing.json'' =
              (zeroRouteEmitterConfig fakeConfigDeps, Some ''no such file or directory'')"
    using o2
      NewRouteEmitterConfig_results [of fakeConfigDeps "''missing.json''" "''x''" ?d
        "''no such file or directory''"]
    by simp
  have n3: "NewRouteEmitterConfig fakeConfigDeps ''broken.json'' =
              (zeroRouteEmitterConfig fakeConfigDeps, Some ''unexpected EOF'')"
    using o3 d3
      NewRouteEmitterConfig_results [of fakeConfigDeps "''broken.json''" "''{cell_id: cell-1,''"
        "?d\<lparr>CellID := ''cell-1''\<rparr>" "''unexpected EOF''"]
    by simp
  have a1: "NATSAddresses (?d\<lparr>CellID := ''cell-1''\<rparr>) = ''nats://127.0.0.1:4222''"
    by (simp add: DefaultRouteEmitterConfig_def)
  have a3: "NATSAddresses (zeroRouteEmitterConfig fakeConfigDeps) = ''''"
    by (simp add: zeroRouteEmitterConfig_def)
  show ?thesis
    using o1 o2 o3 d3 n1 n2 n3 a1 a3 by simp
qed

end
